theory Spec2Isabelle
  imports Complex_Main "HOL-Library.Sublist"
begin

section \<open>Errors (utils/error/error.utils.ts)\<close>

datatype AppErrorCode =
  UNAUTHORIZED | VALIDATION_ERROR | INTERNAL_ERROR | NOT_FOUND | DATABASE_ERROR

text \<open>
  A thrown value is either an instance of \<open>AppError\<close> (message and code; the
  \<open>context\<close> map only carries diagnostics and is left out) or any other value, kept with
  the text that \<open>error.message\<close> (for an \<open>Error\<close>) or \<open>String(error)\<close> yields.
\<close>

datatype thrown = AppError string AppErrorCode | JsError string

text \<open>
  \<open>throwAppError(details, error = "")\<close> always throws; the model returns the thrown value.
  The message is \<open>`${details.message}: ${error ?? errorMessage}`\<close>; the third argument is the
  text of \<open>error\<close> in that template (the empty string when the argument is omitted).
\<close>

definition throwAppError :: "string \<Rightarrow> AppErrorCode \<Rightarrow> string \<Rightarrow> thrown" where
  "throwAppError message code err = AppError (message @ '': '' @ err) code"

fun handleAppError :: "thrown \<Rightarrow> string \<Rightarrow> AppErrorCode \<Rightarrow> thrown" where
  "handleAppError (AppError m c) message code = AppError m c"
| "handleAppError (JsError m) message code = throwAppError message code ''''"

text \<open>\<open>try { body } catch (error) { throw handleAppError(error, {message, code}) }\<close>\<close>

definition rethrow :: "string \<Rightarrow> AppErrorCode \<Rightarrow> thrown + 'a \<Rightarrow> thrown + 'a" where
  "rethrow message code r =
     (case r of Inl e \<Rightarrow> Inl (handleAppError e message code) | Inr v \<Rightarrow> Inr v)"

fun thrownMessage :: "thrown \<Rightarrow> string" where
  "thrownMessage (AppError m c) = m"
| "thrownMessage (JsError m) = m"

section \<open>Chat messages and JSON values\<close>

datatype ChatRole = System | User | Assistant | Tool | Function

text \<open>
  JSON values as \<open>JSON.parse\<close> returns them. Numbers are the integers; an object is the
  list of its members, each key once.
\<close>

datatype json =
  JNull | JBool bool | JNum int | JStr string | JArr "json list" | JObj "(string \<times> json) list"

text \<open>
  The coercions of the host on such values. \<open>truthy\<close> is \<open>ToBoolean\<close>. \<open>toStringJS\<close> is
  \<open>ToString\<close>, which a template literal applies to its argument and \<open>JSON.parse\<close> to an
  argument that is no string: an integer is printed in decimal, an array is its elements
  joined with commas, \<open>null\<close> among them printing as nothing, and an object is
  \<open>[object Object]\<close>. \<open>joinWith\<close> is \<open>Array.prototype.join\<close> on strings.
\<close>

definition truthy :: "json \<Rightarrow> bool" where
  "truthy j = (case j of JNull \<Rightarrow> False | JBool b \<Rightarrow> b | JNum n \<Rightarrow> n \<noteq> 0
               | JStr s \<Rightarrow> s \<noteq> [] | JArr xs \<Rightarrow> True | JObj kvs \<Rightarrow> True)"

primrec joinWith :: "string \<Rightarrow> string list \<Rightarrow> string" where
  "joinWith sep [] = []"
| "joinWith sep (x # xs) = (if xs = [] then x else x @ sep @ joinWith sep xs)"

fun digits :: "nat \<Rightarrow> string" where
  "digits n = (if n < 10 then [char_of (48 + n)] else digits (n div 10) @ [char_of (48 + n mod 10)])"

fun toStringJS :: "json \<Rightarrow> string" where
  "toStringJS JNull = ''null''"
| "toStringJS (JBool b) = (if b then ''true'' else ''false'')"
| "toStringJS (JNum i) = (if i < 0 then ''-'' @ digits (nat (- i)) else digits (nat i))"
| "toStringJS (JStr s) = s"
| "toStringJS (JArr xs) =
     joinWith '','' (map (\<lambda>x. if x = JNull then [] else toStringJS x) xs)"
| "toStringJS (JObj kvs) = ''[object Object]''"

record ToolCall =
  ToolCall_id :: string
  ToolCall_name :: string
  ToolCall_arguments :: string

record ChatMessage =
  role :: ChatRole
  content :: string
  tool_calls :: "ToolCall list option"
  tool_call_id :: "string option"

section \<open>The durable store (integrations/db, migrations)\<close>

record threads_row =
  threads_id :: string
  threads_user_id :: string
  threads_title :: "string option"
  threads_user_objectives :: json

record embeddings_row =
  embeddings_thread_id :: string
  embeddings_order_index :: int
  embeddings_chunk_index :: int
  embeddings_role :: ChatRole
  embeddings_content :: string
  embeddings_embedding :: string

record db_error =
  error_code :: string
  error_text :: string

text \<open>The queries the services send to the store, with their parameters.\<close>

datatype db_request =
    InsertThread string "string option"
  | SelectThread string
  | UpdateThread string "string option" "string list option"
  | InsertMessage embeddings_row
  | SelectOrderIndex string
  | MatchEmbeddings string real int string

text \<open>Every effect of a turn on the outside world, in the order in which it is issued.\<close>

datatype event =
    Store db_request
  | ChatCreate bool "ChatMessage list" "string list"
  | EmbedQuery string
  | SplitText string
  | ToolRun string json
  | OnToken string
  | Console string

record world =
  threads :: "threads_row list"
  embeddings :: "embeddings_row list"
  trace :: "event list"

definition emit :: "event \<Rightarrow> world \<Rightarrow> world" where
  "emit ev w = w\<lparr>trace := trace w @ [ev]\<rparr>"

text \<open>
  The collaborators outside the repository are parameters of the model:
  \<^item> \<open>db_error_at n q\<close>: the \<open>error\<close> the store client reports for query \<open>q\<close> issued when
    \<open>n\<close> effects have happened before it (\<open>None\<close>: the query is served). The client is used
    without \<open>throwOnError\<close>, so it reports every failure in the \<open>error\<close> field of its reply;
  \<^item> \<open>single_no_row\<close>: what \<open>.single()\<close> reports when no single row matches;
  \<^item> \<open>gen_random_uuid\<close>: the identifier the store generates for a new thread;
  \<^item> \<open>distance\<close>: the operator \<open><=>\<close> of the similarity search on two stored embeddings,
    and \<open>float8mi\<close>: the subtraction of two numbers of type \<open>double precision\<close>;
  \<^item> \<open>positive\<close>: whether the number that \<open>ToNumber\<close> gives for a string is greater
    than 0;
  \<^item> \<open>chat_completion\<close>, \<open>chat_stream\<close>: the model provider's reply to the \<open>n\<close>-th invocation,
    as the list of \<open>choices\<close>, or as the list of streamed deltas (a stream arrives whole or
    the call fails);
  \<^item> \<open>embedQuery\<close>, \<open>splitText\<close>: the embedding provider (its vector already serialised)
    and the text splitter;
  \<^item> \<open>JSON_parse\<close> (\<open>None\<close> for a \<open>SyntaxError\<close>) and \<open>JSON_stringify\<close>: the host's JSON.
\<close>

record Choice =
  Choice_content :: "string option"
  Choice_tool_calls :: "ToolCall list option"

record ToolCallDelta =
  delta_id :: "string option"
  delta_name :: "string option"
  delta_arguments :: "string option"

record Delta =
  Delta_content :: "string option"
  Delta_tool_calls :: "ToolCallDelta list option"

record env =
  db_error_at :: "nat \<Rightarrow> db_request \<Rightarrow> db_error option"
  single_no_row :: "db_error option"
  gen_random_uuid :: "nat \<Rightarrow> string"
  distance :: "string \<Rightarrow> string \<Rightarrow> real"
  float8mi :: "real \<Rightarrow> real \<Rightarrow> real"
  positive :: "string \<Rightarrow> bool"
  chat_completion :: "nat \<Rightarrow> ChatMessage list \<Rightarrow> thrown + Choice list"
  chat_stream :: "nat \<Rightarrow> ChatMessage list \<Rightarrow> thrown + Delta list"
  embedQuery :: "string \<Rightarrow> thrown + string"
  splitText :: "string \<Rightarrow> thrown + string list"
  JSON_parse :: "string \<Rightarrow> json option"
  JSON_stringify :: "json \<Rightarrow> string"

subsection \<open>Queries\<close>

text \<open>
  Each query is logged, then either refused with the error the environment injects or
  served from the tables. A reply is the pair \<open>(data, error)\<close> of the client.
\<close>

text \<open>
  The constraints of the tables. The identifier of a thread is its primary key, and the
  table of fragments has the constraint \<open>UNIQUE (thread_id, order_index, chunk_index)\<close>:
  an insert that violates one of them is reported with the store's code 23505. The
  \<open>thread_id\<close> of a fragment references a thread: an insert for a thread that is not
  stored is reported with the code 23503.
\<close>

definition unique_violation :: db_error where
  "unique_violation = \<lparr>error_code = ''23505'', error_text = ''[object Object]''\<rparr>"

definition foreign_key_violation :: db_error where
  "foreign_key_violation = \<lparr>error_code = ''23503'', error_text = ''[object Object]''\<rparr>"

text \<open>
  \<open>.insert({user_id, title, user_objectives: "[]"}).select().single()\<close>: the column
  \<open>user_objectives\<close> has the type \<open>jsonb\<close> and receives the string \<open>[]\<close>.
\<close>

definition db_insert_thread ::
  "env \<Rightarrow> string \<Rightarrow> string option \<Rightarrow> world \<Rightarrow> (threads_row option \<times> db_error option) \<times> world" where
  "db_insert_thread E uid ttl w =
     (let q = InsertThread uid ttl; w1 = emit (Store q) w in
      case db_error_at E (length (trace w)) q of
        Some e \<Rightarrow> ((None, Some e), w1)
      | None \<Rightarrow>
          (let row = \<lparr>threads_id = gen_random_uuid E (length (trace w)), threads_user_id = uid,
                          threads_title = ttl, threads_user_objectives = JStr ''[]''\<rparr>
           in if list_ex (\<lambda>r. threads_id r = threads_id row) (threads w)
              then ((None, Some unique_violation), w1)
              else ((Some row, None), w1\<lparr>threads := threads w1 @ [row]\<rparr>)))"

definition single :: "env \<Rightarrow> 'a list \<Rightarrow> 'a option \<times> db_error option" where
  "single E rows = (case rows of [r] \<Rightarrow> (Some r, None) | _ \<Rightarrow> (None, single_no_row E))"

definition db_select_thread ::
  "env \<Rightarrow> string \<Rightarrow> world \<Rightarrow> (threads_row option \<times> db_error option) \<times> world" where
  "db_select_thread E tid w =
     (let q = SelectThread tid; w1 = emit (Store q) w in
      case db_error_at E (length (trace w)) q of
        Some e \<Rightarrow> ((None, Some e), w1)
      | None \<Rightarrow> (single E (filter (\<lambda>r. threads_id r = tid) (threads w)), w1))"

text \<open>
  \<open>.update(updateData).eq("id", t).select().single()\<close>: the objectives are sent as the
  array of strings they are, and the column holds that array.
\<close>

definition apply_update :: "string option \<Rightarrow> string list option \<Rightarrow> threads_row \<Rightarrow> threads_row" where
  "apply_update ttl objs r =
     (let r1 = (case ttl of None \<Rightarrow> r | Some t \<Rightarrow> r\<lparr>threads_title := Some t\<rparr>)
      in case objs of None \<Rightarrow> r1 | Some os \<Rightarrow> r1\<lparr>threads_user_objectives := JArr (map JStr os)\<rparr>)"

definition db_update_thread ::
  "env \<Rightarrow> string \<Rightarrow> string option \<Rightarrow> string list option \<Rightarrow> world
     \<Rightarrow> (threads_row option \<times> db_error option) \<times> world" where
  "db_update_thread E tid ttl objs w =
     (let q = UpdateThread tid ttl objs; w1 = emit (Store q) w in
      case db_error_at E (length (trace w)) q of
        Some e \<Rightarrow> ((None, Some e), w1)
      | None \<Rightarrow>
          (let rows = map (\<lambda>r. if threads_id r = tid then apply_update ttl objs r else r) (threads w)
           in (single E (filter (\<lambda>r. threads_id r = tid) rows), w1\<lparr>threads := rows\<rparr>)))"

definition same_key :: "embeddings_row \<Rightarrow> embeddings_row \<Rightarrow> bool" where
  "same_key a b \<longleftrightarrow>
     embeddings_thread_id a = embeddings_thread_id b \<and>
     embeddings_order_index a = embeddings_order_index b \<and>
     embeddings_chunk_index a = embeddings_chunk_index b"

definition db_insert_message ::
  "env \<Rightarrow> embeddings_row \<Rightarrow> world \<Rightarrow> (embeddings_row option \<times> db_error option) \<times> world" where
  "db_insert_message E row w =
     (let q = InsertMessage row; w1 = emit (Store q) w in
      case db_error_at E (length (trace w)) q of
        Some e \<Rightarrow> ((None, Some e), w1)
      | None \<Rightarrow>
          (if list_ex (same_key row) (embeddings w) then ((None, Some unique_violation), w1)
           else if \<not> list_ex (\<lambda>t. threads_id t = embeddings_thread_id row) (threads w)
           then ((None, Some foreign_key_violation), w1)
           else ((Some row, None), w1\<lparr>embeddings := embeddings w1 @ [row]\<rparr>)))"

text \<open>
  \<open>.select("order_index").eq("thread_id", t).order("order_index", {ascending: false}).limit(1)\<close>
\<close>

definition db_select_order_index ::
  "env \<Rightarrow> string \<Rightarrow> world \<Rightarrow> (int list option \<times> db_error option) \<times> world" where
  "db_select_order_index E tid w =
     (let q = SelectOrderIndex tid; w1 = emit (Store q) w in
      case db_error_at E (length (trace w)) q of
        Some e \<Rightarrow> ((None, Some e), w1)
      | None \<Rightarrow>
          ((Some (take 1 (rev (sort (map embeddings_order_index
                   (filter (\<lambda>r. embeddings_thread_id r = tid) (embeddings w)))))), None), w1))"

text \<open>
  The function \<open>match_embeddings\<close> of the migration: the fragments of the thread whose
  similarity \<open>1 - (embedding <=> query)\<close>, a subtraction in \<open>double precision\<close>, exceeds
  the threshold, nearest first, at most \<open>match_count\<close> of them; fragments at the same
  distance, whose order the query leaves open, come in the order of the table. A negative
  \<open>match_count\<close> makes the store reject the \<open>LIMIT\<close> clause with its code 2201W.
\<close>

definition match_embeddings ::
  "env \<Rightarrow> string \<Rightarrow> real \<Rightarrow> int \<Rightarrow> string \<Rightarrow> embeddings_row list \<Rightarrow> embeddings_row list" where
  "match_embeddings E query_embedding similarity_threshold match_count filter_thread_id rows =
     take (nat match_count)
       (sort_key (\<lambda>me. distance E (embeddings_embedding me) query_embedding)
          (filter (\<lambda>me. float8mi E 1 (distance E (embeddings_embedding me) query_embedding)
                          > similarity_threshold
                        \<and> embeddings_thread_id me = filter_thread_id) rows))"

definition negative_limit :: db_error where
  "negative_limit = \<lparr>error_code = ''2201W'', error_text = ''[object Object]''\<rparr>"

definition db_rpc_match_embeddings ::
  "env \<Rightarrow> string \<Rightarrow> real \<Rightarrow> int \<Rightarrow> string \<Rightarrow> world
     \<Rightarrow> (embeddings_row list option \<times> db_error option) \<times> world" where
  "db_rpc_match_embeddings E emb sim cnt tid w =
     (let q = MatchEmbeddings emb sim cnt tid; w1 = emit (Store q) w in
      case db_error_at E (length (trace w)) q of
        Some e \<Rightarrow> ((None, Some e), w1)
      | None \<Rightarrow>
          (if cnt < 0 then ((None, Some negative_limit), w1)
           else ((Some (match_embeddings E emb sim cnt tid (embeddings w)), None), w1)))"

section \<open>Embeddings and text splitting (integrations/ai/ai.integration.ts)\<close>

definition generateEmbeddings :: "env \<Rightarrow> string \<Rightarrow> world \<Rightarrow> (thrown + string) \<times> world" where
  "generateEmbeddings E text w =
     (rethrow ''Create Embeddings Error'' INTERNAL_ERROR (embedQuery E text), emit (EmbedQuery text) w)"

definition splitTextIntoChunks :: "env \<Rightarrow> string \<Rightarrow> world \<Rightarrow> (thrown + string list) \<times> world" where
  "splitTextIntoChunks E text w =
     (rethrow ''Split Embeddings Error'' INTERNAL_ERROR (splitText E text), emit (SplitText text) w)"

text \<open>
  \<open>Promise.all\<close> over tasks that have all been started: every task runs, and the
  combined promise rejects with an error if one of them fails. The model runs the tasks
  to completion in array order and reports the first failure in that order.
\<close>

fun promise_all ::
  "(world \<Rightarrow> (thrown + 'a) \<times> world) list \<Rightarrow> world \<Rightarrow> (thrown + 'a list) \<times> world" where
  "promise_all [] w = (Inr [], w)"
| "promise_all (t # ts) w =
     (case t w of (r, w1) \<Rightarrow>
        (case promise_all ts w1 of (rs, w2) \<Rightarrow>
           ((case r of Inl e \<Rightarrow> Inl e
             | Inr v \<Rightarrow> (case rs of Inl e \<Rightarrow> Inl e | Inr vs \<Rightarrow> Inr (v # vs))), w2)))"

record EmbeddingChunk =
  chunk_content :: string
  chunk_embedding :: string

definition embedSnippet :: "env \<Rightarrow> string \<Rightarrow> world \<Rightarrow> (thrown + EmbeddingChunk) \<times> world" where
  "embedSnippet E snippet w =
     (case generateEmbeddings E snippet w of
        (Inl e, w1) \<Rightarrow> (Inl e, w1)
      | (Inr emb, w1) \<Rightarrow> (Inr \<lparr>chunk_content = snippet, chunk_embedding = emb\<rparr>, w1))"

definition generateEmbeddingChunks ::
  "env \<Rightarrow> string \<Rightarrow> world \<Rightarrow> (thrown + EmbeddingChunk list) \<times> world" where
  "generateEmbeddingChunks E text w =
     (case splitTextIntoChunks E text w of
        (Inl e, w1) \<Rightarrow> (rethrow ''Generate Embedding Chunks Error'' INTERNAL_ERROR (Inl e), w1)
      | (Inr snippets, w1) \<Rightarrow>
          (case promise_all (map (embedSnippet E) snippets) w1 of
             (r, w2) \<Rightarrow> (rethrow ''Generate Embedding Chunks Error'' INTERNAL_ERROR r, w2)))"

section \<open>Threads and fragments (services/assistant/db.utils.ts)\<close>

record Thread =
  Thread_id :: string
  Thread_userId :: string
  Thread_title :: "string option"
  Thread_userObjectives :: "json option"

record MessageEmbedding =
  MessageEmbedding_threadId :: string
  MessageEmbedding_chunkIndex :: int
  MessageEmbedding_orderIndex :: int
  MessageEmbedding_role :: ChatRole
  MessageEmbedding_content :: string
  MessageEmbedding_embedding :: "string option"

text \<open>
  The object that \<open>createThread\<close>, \<open>readThread\<close> and \<open>updateThread\<close> build from the row of
  a reply. Its objectives are
  \<open>thread?.user_objectives ? JSON.parse(thread.user_objectives as string) : []\<close>: whatever
  \<open>JSON.parse\<close> makes of the text of the stored value, and its \<open>SyntaxError\<close> is thrown
  inside the \<open>try\<close> block of the caller. The string \<open>[]\<close> that \<open>createThread\<close> stores
  reads back as the empty array; an array of objectives that \<open>updateThread\<close> has stored
  reads back through its text, the objectives joined with commas. Timestamps and
  generated row identifiers of fragments are left out.
\<close>

definition toThread :: "env \<Rightarrow> threads_row \<Rightarrow> thrown + Thread" where
  "toThread E r =
     (if truthy (threads_user_objectives r)
      then (case JSON_parse E (toStringJS (threads_user_objectives r)) of
              None \<Rightarrow> Inl (JsError ''Unexpected token'')
            | Some parsed \<Rightarrow>
                Inr \<lparr>Thread_id = threads_id r, Thread_userId = threads_user_id r,
                     Thread_title = threads_title r, Thread_userObjectives = Some parsed\<rparr>)
      else Inr \<lparr>Thread_id = threads_id r, Thread_userId = threads_user_id r,
                Thread_title = threads_title r, Thread_userObjectives = Some (JArr [])\<rparr>)"

text \<open>The thread built from a reply without a row: every field is \<open>undefined\<close>.\<close>

definition undefinedThread :: Thread where
  "undefinedThread = \<lparr>Thread_id = [], Thread_userId = [], Thread_title = None,
                       Thread_userObjectives = Some (JArr [])\<rparr>"

definition isUnauthorized :: "db_error option \<Rightarrow> bool" where
  "isUnauthorized err \<longleftrightarrow> (case err of None \<Rightarrow> False | Some e \<Rightarrow> error_code e = ''PGRST116'')"

definition errorText :: "db_error option \<Rightarrow> string" where
  "errorText err = (case err of None \<Rightarrow> [] | Some e \<Rightarrow> error_text e)"

definition createThread :: "env \<Rightarrow> string \<Rightarrow> string \<Rightarrow> world \<Rightarrow> (thrown + Thread) \<times> world" where
  "createThread E userId title w =
     (case db_insert_thread E userId (if title = [] then None else Some title) w of
        ((thread, err), w1) \<Rightarrow>
          (rethrow ''Create Thread Error'' DATABASE_ERROR
            (if isUnauthorized err
             then Inl (throwAppError ''Get Thread Error'' UNAUTHORIZED (errorText err))
             else case thread of
                    None \<Rightarrow> Inl (throwAppError ''Create Thread Error'' DATABASE_ERROR [])
                  | Some r \<Rightarrow> toThread E r), w1))"

definition readThread :: "env \<Rightarrow> string \<Rightarrow> world \<Rightarrow> (thrown + Thread option) \<times> world" where
  "readThread E threadId w =
     (case db_select_thread E threadId w of
        ((thread, err), w1) \<Rightarrow>
          (rethrow ''Get Thread Error'' DATABASE_ERROR
            (if isUnauthorized err
             then Inl (throwAppError ''Get Thread Error'' UNAUTHORIZED (errorText err))
             else case thread of
                    None \<Rightarrow> Inr None
                  | Some r \<Rightarrow> map_sum id Some (toThread E r)), w1))"

definition updateThread ::
  "env \<Rightarrow> string \<Rightarrow> string option \<Rightarrow> string list option \<Rightarrow> world \<Rightarrow> (thrown + Thread) \<times> world" where
  "updateThread E threadId title userObjectives w =
     (if (title = None \<or> title = Some []) \<and> userObjectives = None
      then (Inl (throwAppError ''Update Thread Error'' DATABASE_ERROR []), w)
      else
        (case db_update_thread E threadId title userObjectives w of
           ((thread, err), w1) \<Rightarrow>
             (rethrow ''Update Thread Error'' DATABASE_ERROR
               (if isUnauthorized err
                then Inl (throwAppError ''Update Thread Error'' UNAUTHORIZED (errorText err))
                else case thread of
                       None \<Rightarrow> Inr undefinedThread
                     | Some r \<Rightarrow> toThread E r), w1)))"

definition toMessageEmbedding :: "embeddings_row \<Rightarrow> MessageEmbedding" where
  "toMessageEmbedding r =
     \<lparr>MessageEmbedding_threadId = embeddings_thread_id r,
      MessageEmbedding_chunkIndex = embeddings_chunk_index r,
      MessageEmbedding_orderIndex = embeddings_order_index r,
      MessageEmbedding_role = embeddings_role r,
      MessageEmbedding_content = embeddings_content r,
      MessageEmbedding_embedding =
        (if embeddings_embedding r = [] then None else Some (embeddings_embedding r))\<rparr>"

definition createMessage ::
  "env \<Rightarrow> string \<Rightarrow> int \<Rightarrow> int \<Rightarrow> ChatRole \<Rightarrow> string \<Rightarrow> string \<Rightarrow> world
     \<Rightarrow> (thrown + MessageEmbedding) \<times> world" where
  "createMessage E threadId orderIndex chunkIndex rl text embedding w =
     (case db_insert_message E
             \<lparr>embeddings_thread_id = threadId, embeddings_order_index = orderIndex,
              embeddings_chunk_index = chunkIndex, embeddings_role = rl,
              embeddings_content = text, embeddings_embedding = embedding\<rparr> w of
        ((message, err), w1) \<Rightarrow>
          (rethrow ''Create Message Embedding Error'' DATABASE_ERROR
            (if isUnauthorized err
             then Inl (throwAppError ''Create Message Embedding Error'' UNAUTHORIZED (errorText err))
             else case message of
                    None \<Rightarrow> Inl (throwAppError ''Create Message Embedding Error'' DATABASE_ERROR [])
                  | Some r \<Rightarrow> Inr ((toMessageEmbedding r)\<lparr>MessageEmbedding_embedding := Some (embeddings_embedding r)\<rparr>)), w1))"

definition getNextOrderIndex :: "env \<Rightarrow> string \<Rightarrow> world \<Rightarrow> (thrown + int) \<times> world" where
  "getNextOrderIndex E threadId w =
     (case db_select_order_index E threadId w of
        ((data, err), w1) \<Rightarrow>
          (rethrow ''Get Next Order Index Error'' DATABASE_ERROR
            (if isUnauthorized err
             then Inl (throwAppError ''Get Next Order Index Error'' UNAUTHORIZED (errorText err))
             else case (err, data) of
                    (None, Some (row # _)) \<Rightarrow> Inr ((if row = 0 then 0 else row) + 1)
                  | _ \<Rightarrow> Inr 1), w1))"

text \<open>The order indices stored for a thread.\<close>

definition orderIndices :: "string \<Rightarrow> world \<Rightarrow> int list" where
  "orderIndices threadId w =
     map embeddings_order_index (filter (\<lambda>r. embeddings_thread_id r = threadId) (embeddings w))"

section \<open>Directives in the reply text (services/assistant/ai.utils.ts)\<close>

text \<open>
  A character is one code unit below 256. \<open>\s\<close> and \<open>trim\<close> take the white space
  of that range, \<open>.\<close> and \<open>$\<close> (with flag \<open>m\<close>) its line terminators.
\<close>

definition isLineTerminator :: "char \<Rightarrow> bool" where
  "isLineTerminator c \<longleftrightarrow> c \<in> set [CHR 0x0A, CHR 0x0D]"

definition isWhiteSpace :: "char \<Rightarrow> bool" where
  "isWhiteSpace c \<longleftrightarrow> c \<in> set [CHR 0x09, CHR 0x0A, CHR 0x0B, CHR 0x0C, CHR 0x0D, CHR 0x20, CHR 0xA0]"

definition trim :: "string \<Rightarrow> string" where
  "trim s = rev (dropWhile isWhiteSpace (rev (dropWhile isWhiteSpace s)))"

definition USER_OBJECTIVE :: string where
  "USER_OBJECTIVE = ''USER_OBJECTIVE:''"

text \<open>
  The expression \<open>/USER_OBJECTIVE:\s*(.+)$/gm\<close>. \<open>captureLine\<close> is the greedy \<open>(.+)\<close>:
  the longest run of characters that are not line terminators; after it the input ends
  or a line terminator follows, so \<open>$\<close> holds. \<open>afterSpaces j r\<close> is \<open>\s*\<close> having taken
  \<open>j\<close> characters of \<open>r\<close>: when \<open>(.+)\<close> finds nothing there, \<open>\s*\<close> gives one character back.
  The result is the number of characters \<open>\s*\<close> keeps and the captured group.
\<close>

definition captureLine :: "string \<Rightarrow> string" where
  "captureLine s = takeWhile (\<lambda>c. \<not> isLineTerminator c) s"

primrec afterSpaces :: "nat \<Rightarrow> string \<Rightarrow> (nat \<times> string) option" where
  "afterSpaces 0 r = (case captureLine r of [] \<Rightarrow> None | c # cs \<Rightarrow> Some (0, c # cs))"
| "afterSpaces (Suc j) r =
     (case captureLine (drop (Suc j) r) of
        [] \<Rightarrow> afterSpaces j r
      | c # cs \<Rightarrow> Some (Suc j, c # cs))"

text \<open>A match at the start of \<open>s\<close>: the captured group and the length of the match.\<close>

definition objectiveAt :: "string \<Rightarrow> (string \<times> nat) option" where
  "objectiveAt s =
     (if prefix USER_OBJECTIVE s
      then (let r = drop (length USER_OBJECTIVE) s in
            case afterSpaces (length (takeWhile isWhiteSpace r)) r of
              None \<Rightarrow> None
            | Some (j, t) \<Rightarrow> Some (t, length USER_OBJECTIVE + j + length t))
      else None)"

text \<open>
  The loop \<open>while ((match = regex.exec(content)) !== null)\<close>: the search goes on at
  \<open>lastIndex\<close>, the end of the last match. \<open>scanObjectives n s\<close> has \<open>n\<close> characters of
  the last match still to pass.
\<close>

fun scanObjectives :: "nat \<Rightarrow> string \<Rightarrow> string list" where
  "scanObjectives n [] = []"
| "scanObjectives (Suc n) (c # cs) = scanObjectives n cs"
| "scanObjectives 0 (c # cs) =
     (case objectiveAt (c # cs) of
        None \<Rightarrow> scanObjectives 0 cs
      | Some (t, len) \<Rightarrow> trim t # scanObjectives (len - 1) cs)"

definition extractUserObjectives :: "string \<Rightarrow> string list" where
  "extractUserObjectives text = scanObjectives 0 text"

text \<open>
  The expressions \<open>/CREATED:([\s\S]*?)(?=UPDATED:|DELETED:|$)/i\<close> and its two siblings.
  With flag \<open>i\<close> two characters match when their upper-case forms agree; the markers
  are ASCII, so only ASCII letters are folded.
\<close>

fun canonicalize :: "char \<Rightarrow> char" where
  "canonicalize (Char b0 b1 b2 b3 b4 b5 b6 b7) =
     (if 97 \<le> (of_char (Char b0 b1 b2 b3 b4 b5 b6 b7) :: nat) \<and>
         (of_char (Char b0 b1 b2 b3 b4 b5 b6 b7) :: nat) \<le> 122
      then Char b0 b1 b2 b3 b4 False b6 b7
      else Char b0 b1 b2 b3 b4 b5 b6 b7)"

fun matchesCI :: "string \<Rightarrow> string \<Rightarrow> bool" where
  "matchesCI [] s = True"
| "matchesCI (p # ps) [] = False"
| "matchesCI (p # ps) (c # cs) = (canonicalize p = canonicalize c \<and> matchesCI ps cs)"

text \<open>The lazy group: it ends where a stop marker begins, or where the input ends.\<close>

fun lazyGroup :: "string list \<Rightarrow> string \<Rightarrow> string" where
  "lazyGroup stops [] = []"
| "lazyGroup stops (c # cs) =
     (if list_ex (\<lambda>m. matchesCI m (c # cs)) stops then [] else c # lazyGroup stops cs)"

text \<open>\<open>content.match(...)\<close>: the group of the leftmost match, \<open>None\<close> without a match.\<close>

fun matchBlock :: "string \<Rightarrow> string list \<Rightarrow> string \<Rightarrow> string option" where
  "matchBlock marker stops [] = None"
| "matchBlock marker stops (c # cs) =
     (if matchesCI marker (c # cs)
      then Some (lazyGroup stops (drop (length marker) (c # cs)))
      else matchBlock marker stops cs)"

definition toArray :: "json \<Rightarrow> json list" where
  "toArray parsed = (case parsed of JArr xs \<Rightarrow> xs | _ \<Rightarrow> [parsed])"

text \<open>
  One block of \<open>extractEntityChanges\<close>; a \<open>SyntaxError\<close> of \<open>JSON.parse\<close> is caught and
  leaves the list empty (the \<open>console.debug\<close> line is not modelled).
\<close>

definition parseEntities :: "env \<Rightarrow> string option \<Rightarrow> json list" where
  "parseEntities E m =
     (case m of
        None \<Rightarrow> []
      | Some captured \<Rightarrow>
          if captured = [] then []
          else (let jsonStr = trim captured in
                if jsonStr = [] then []
                else (case JSON_parse E jsonStr of None \<Rightarrow> [] | Some parsed \<Rightarrow> toArray parsed)))"

record EntityChanges =
  changes_created :: "json list"
  changes_updated :: "json list"
  changes_deleted :: "json list"

definition extractEntityChanges :: "env \<Rightarrow> string \<Rightarrow> EntityChanges" where
  "extractEntityChanges E text =
     \<lparr>changes_created = parseEntities E (matchBlock ''CREATED:'' [''UPDATED:'', ''DELETED:''] text),
      changes_updated = parseEntities E (matchBlock ''UPDATED:'' [''CREATED:'', ''DELETED:''] text),
      changes_deleted = parseEntities E (matchBlock ''DELETED:'' [''CREATED:'', ''UPDATED:''] text)\<rparr>"

record AIExecutionResult =
  message :: string
  toolCalls :: "ToolCall list option"
  userObjectives :: "string list"
  structuredData :: "json option"
  created :: "json list option"
  updated :: "json list option"
  deleted :: "json list option"

definition processAIResponse ::
  "env \<Rightarrow> string \<Rightarrow> ToolCall list option \<Rightarrow> json option \<Rightarrow> AIExecutionResult" where
  "processAIResponse E text calls sdata =
     (let changes = extractEntityChanges E text in
      \<lparr>message = text,
       toolCalls = (case calls of Some (c # cs) \<Rightarrow> Some (c # cs) | _ \<Rightarrow> None),
       userObjectives = extractUserObjectives text,
       structuredData = sdata,
       created = Some (changes_created changes),
       updated = Some (changes_updated changes),
       deleted = Some (changes_deleted changes)\<rparr>)"

definition ensureSystemMessage :: "ChatMessage list \<Rightarrow> string \<Rightarrow> ChatMessage list" where
  "ensureSystemMessage messages systemMessage =
     (if list_ex (\<lambda>msg. role msg = System) messages then messages
      else \<lparr>role = System, content = systemMessage, tool_calls = None, tool_call_id = None\<rparr> # messages)"

section \<open>Tools (services/assistant/tool.utils.ts)\<close>

datatype AssistantToolType = GET | CREATE | UPDATE | DELETE

text \<open>
  \<open>argsSchema\<close> is \<open>safeParse\<close> of the tool's schema (\<open>None\<close> when it fails) and
  \<open>callFunction\<close> the bound function, which may throw.
\<close>

record AssistantTool =
  tool_name :: string
  tool_description :: string
  tool_type :: AssistantToolType
  argsSchema :: "json \<Rightarrow> json option"
  callFunction :: "json \<Rightarrow> thrown + json"

definition execute :: "AssistantTool \<Rightarrow> json \<Rightarrow> world \<Rightarrow> (thrown + json) \<times> world" where
  "execute tool args w =
     (rethrow ''AssistantTool Call Error'' INTERNAL_ERROR (callFunction tool args),
      emit (ToolRun (tool_name tool) args) w)"

definition validateArgs :: "AssistantTool \<Rightarrow> json \<Rightarrow> thrown + json" where
  "validateArgs tool args =
     (case argsSchema tool args of
        None \<Rightarrow> Inl (throwAppError ''AssistantTool Validation Error'' VALIDATION_ERROR [])
      | Some data \<Rightarrow> Inr data)"

section \<open>Tool calls (services/assistant/ai.utils.ts)\<close>

definition getTool :: "string \<Rightarrow> AssistantTool list \<Rightarrow> thrown + AssistantTool" where
  "getTool toolName tools =
     (case find (\<lambda>t. tool_name t = toolName) tools of
        None \<Rightarrow> Inl (throwAppError (''Tool not found: '' @ toolName) NOT_FOUND [])
      | Some tool \<Rightarrow> Inr tool)"

definition parseToolArguments :: "env \<Rightarrow> string \<Rightarrow> thrown + json" where
  "parseToolArguments E argumentsJson =
     (case JSON_parse E argumentsJson of
        None \<Rightarrow> Inl (throwAppError ''Invalid tool arguments format'' VALIDATION_ERROR [])
      | Some args \<Rightarrow> Inr args)"

definition toolMessage :: "string \<Rightarrow> string \<Rightarrow> ChatMessage" where
  "toolMessage call_id text =
     \<lparr>role = Tool, content = text, tool_calls = None, tool_call_id = Some call_id\<rparr>"

text \<open>The body of the \<open>try\<close> block of \<open>handleToolCall\<close>: all four steps are inside it.\<close>

definition runToolCall :: "env \<Rightarrow> ToolCall \<Rightarrow> AssistantTool list \<Rightarrow> world \<Rightarrow> (thrown + json) \<times> world" where
  "runToolCall E toolCall tools w =
     (case getTool (ToolCall_name toolCall) tools of
        Inl e \<Rightarrow> (Inl e, w)
      | Inr tool \<Rightarrow>
          (case parseToolArguments E (ToolCall_arguments toolCall) of
             Inl e \<Rightarrow> (Inl e, w)
           | Inr args \<Rightarrow>
               (case validateArgs tool args of
                  Inl e \<Rightarrow> (Inl e, w)
                | Inr validatedArgs \<Rightarrow> execute tool validatedArgs w)))"

text \<open>
  \<open>handleToolCall\<close>: the \<open>catch\<close> turns whatever the body throws into a tool message.
\<close>

definition handleToolCall ::
  "env \<Rightarrow> ToolCall \<Rightarrow> AssistantTool list \<Rightarrow> world \<Rightarrow> (thrown + ChatMessage) \<times> world" where
  "handleToolCall E toolCall tools w =
     (case runToolCall E toolCall tools w of
        (Inr result, w1) \<Rightarrow>
          (Inr (toolMessage (ToolCall_id toolCall)
                  (case result of JStr s \<Rightarrow> s | _ \<Rightarrow> JSON_stringify E result)), w1)
      | (Inl error, w1) \<Rightarrow>
          (Inr (toolMessage (ToolCall_id toolCall)
                  (JSON_stringify E (JObj [(''error'', JStr (thrownMessage error))]))), w1))"

definition property :: "json \<Rightarrow> string \<Rightarrow> json option" where
  "property j k = (case j of JObj kvs \<Rightarrow> map_of kvs k | _ \<Rightarrow> None)"

definition entitiesOf :: "json \<Rightarrow> string \<Rightarrow> json list" where
  "entitiesOf j k =
     (case property j k of
        None \<Rightarrow> []
      | Some v \<Rightarrow> if truthy v then toArray v else [])"

definition extractEntitiesFromToolResponse :: "env \<Rightarrow> ChatMessage \<Rightarrow> EntityChanges" where
  "extractEntitiesFromToolResponse E response =
     (case JSON_parse E (content response) of
        None \<Rightarrow> \<lparr>changes_created = [], changes_updated = [], changes_deleted = []\<rparr>
      | Some j \<Rightarrow>
          if truthy j \<and> (case property j ''error'' of None \<Rightarrow> True | Some e \<Rightarrow> \<not> truthy e)
          then \<lparr>changes_created = entitiesOf j ''created'',
                changes_updated = entitiesOf j ''updated'',
                changes_deleted = entitiesOf j ''deleted''\<rparr>
          else \<lparr>changes_created = [], changes_updated = [], changes_deleted = []\<rparr>)"

definition processToolCallWithEntities ::
  "env \<Rightarrow> AssistantTool list \<Rightarrow> ToolCall \<Rightarrow> world
     \<Rightarrow> (thrown + ChatMessage \<times> EntityChanges) \<times> world" where
  "processToolCallWithEntities E tools toolCall w =
     (case handleToolCall E toolCall tools w of
        (Inl e, w1) \<Rightarrow> (Inl (handleAppError e ''Error processing tool call'' INTERNAL_ERROR), w1)
      | (Inr response, w1) \<Rightarrow> (Inr (response, extractEntitiesFromToolResponse E response), w1))"

section \<open>Model invocation (services/assistant/ai.utils.ts)\<close>

record AIExecutionConfig =
  config_model :: string
  config_systemMessage :: string
  config_messages :: "ChatMessage list"
  config_tools :: "AssistantTool list option"
  config_onToken :: bool
  config_responseFormat :: "(json \<Rightarrow> json option) option"

fun chatCalls :: "event list \<Rightarrow> nat" where
  "chatCalls [] = 0"
| "chatCalls (ChatCreate s ms ts # evs) = Suc (chatCalls evs)"
| "chatCalls (ev # evs) = chatCalls evs"

definition toolNames :: "AssistantTool list option \<Rightarrow> string list" where
  "toolNames ts = (case ts of None \<Rightarrow> [] | Some tools \<Rightarrow> map tool_name tools)"

text \<open>
  The structured data of a reply: \<open>structuredData = JSON.parse(content)\<close>, then
  \<open>structuredData = responseFormat.schema.parse(structuredData)\<close>, both in one \<open>try\<close> block
  whose \<open>catch\<close> only writes to the console. When the text is no JSON the data stay
  \<open>undefined\<close>; when the schema rejects the parsed value, that value stays. The second
  component tells whether the \<open>catch\<close> was entered.
\<close>

definition structured ::
  "env \<Rightarrow> (json \<Rightarrow> json option) option \<Rightarrow> string \<Rightarrow> json option \<times> bool" where
  "structured E responseFormat text =
     (case responseFormat of
        None \<Rightarrow> (None, False)
      | Some schema \<Rightarrow>
          if text = [] then (None, False)
          else (case JSON_parse E text of
                  None \<Rightarrow> (None, True)
                | Some parsed \<Rightarrow>
                    (case schema parsed of
                       None \<Rightarrow> (Some parsed, True)
                     | Some validated \<Rightarrow> (Some validated, False))))"

definition executeDefaultAICall :: "env \<Rightarrow> AIExecutionConfig \<Rightarrow> world \<Rightarrow> (thrown + AIExecutionResult) \<times> world" where
  "executeDefaultAICall E cfg w =
     (let messagesWithSystem = ensureSystemMessage (config_messages cfg) (config_systemMessage cfg);
          w1 = emit (ChatCreate False messagesWithSystem (toolNames (config_tools cfg))) w
      in case chat_completion E (chatCalls (trace w)) messagesWithSystem of
           Inl e \<Rightarrow> (Inl e, w1)
         | Inr [] \<Rightarrow> (Inl (JsError ''Cannot read properties of undefined (reading message)''), w1)
         | Inr (choice # _) \<Rightarrow>
             (let text = (case Choice_content choice of None \<Rightarrow> [] | Some s \<Rightarrow> s) in
              case structured E (config_responseFormat cfg) text of
                (sdata, failed) \<Rightarrow>
                  (Inr \<lparr>message = text,
                        toolCalls = Choice_tool_calls choice,
                        userObjectives = extractUserObjectives text,
                        structuredData = sdata,
                        created = None, updated = None, deleted = None\<rparr>,
                   if failed then emit (Console ''Fehler beim Parsen der strukturierten Daten:'') w1
                   else w1)))"

text \<open>
  \<open>processStreamingToolCalls\<close>. The index is the position in the \<open>tool_calls\<close> of the
  delta; positions are visited from 0, so a missing entry is always the next one.
\<close>

definition addToolCallDelta :: "ToolCall list \<Rightarrow> nat \<times> ToolCallDelta \<Rightarrow> ToolCall list" where
  "addToolCallDelta calls p =
     (case p of (index, tc) \<Rightarrow>
        (let calls1 =
               (if index < length calls then calls
                else calls @ [\<lparr>ToolCall_id = (case delta_id tc of None \<Rightarrow> [] | Some i \<Rightarrow> i),
                               ToolCall_name = (case delta_name tc of None \<Rightarrow> [] | Some n \<Rightarrow> n),
                               ToolCall_arguments = []\<rparr>])
         in case delta_arguments tc of
              None \<Rightarrow> calls1
            | Some a \<Rightarrow>
                (if index < length calls1
                 then calls1[index := (calls1 ! index)\<lparr>ToolCall_arguments :=
                                          ToolCall_arguments (calls1 ! index) @ a\<rparr>]
                 else calls1)))"

definition processStreamingToolCalls :: "Delta \<Rightarrow> ToolCall list \<Rightarrow> ToolCall list" where
  "processStreamingToolCalls delta calls =
     (case Delta_tool_calls delta of
        None \<Rightarrow> calls
      | Some tcs \<Rightarrow> foldl addToolCallDelta calls (zip [0..<length tcs] tcs))"

text \<open>The body of \<open>for await (const chunk of stream)\<close>: text so far, tool calls so far.\<close>

fun consumeStream :: "Delta list \<Rightarrow> string \<times> ToolCall list \<Rightarrow> world \<Rightarrow> (string \<times> ToolCall list) \<times> world" where
  "consumeStream [] acc w = (acc, w)"
| "consumeStream (delta # ds) (fullContent, calls) w =
     (case Delta_content delta of
        Some (c # cs) \<Rightarrow>
          consumeStream ds (fullContent @ c # cs, processStreamingToolCalls delta calls)
            (emit (OnToken (c # cs)) w)
      | _ \<Rightarrow> consumeStream ds (fullContent, processStreamingToolCalls delta calls) w)"

definition executeStreamingAICall :: "env \<Rightarrow> AIExecutionConfig \<Rightarrow> world \<Rightarrow> (thrown + AIExecutionResult) \<times> world" where
  "executeStreamingAICall E cfg w =
     (if config_responseFormat cfg \<noteq> None
      then executeDefaultAICall E (cfg\<lparr>config_onToken := False\<rparr>)
             (emit (Console ''Strukturierte Antworten sind nicht mit Streaming kompatibel. Verwende executeDefaultAICall.'') w)
      else
        (let messagesWithSystem = ensureSystemMessage (config_messages cfg) (config_systemMessage cfg);
             w1 = emit (ChatCreate True messagesWithSystem (toolNames (config_tools cfg))) w
         in case chat_stream E (chatCalls (trace w)) messagesWithSystem of
              Inl e \<Rightarrow> (Inl e, w1)
            | Inr deltas \<Rightarrow>
                (case consumeStream deltas ([], []) w1 of
                   ((fullContent, calls), w2) \<Rightarrow>
                     (Inr (processAIResponse E fullContent (Some calls) None), w2))))"

definition executeAICall :: "env \<Rightarrow> AIExecutionConfig \<Rightarrow> world \<Rightarrow> (thrown + AIExecutionResult) \<times> world" where
  "executeAICall E cfg w =
     (case (if config_onToken cfg then executeStreamingAICall E cfg w
            else executeDefaultAICall E cfg w) of
        (r, w1) \<Rightarrow> (rethrow ''AI Execution Error'' INTERNAL_ERROR r, w1))"

section \<open>The tool-call resolution loop (services/assistant/ai.utils.ts)\<close>

record AssistantResponse =
  response_message :: string
  response_threadId :: string
  response_created :: "json list"
  response_updated :: "json list"
  response_deleted :: "json list"

definition assistantMessage :: "AIExecutionResult \<Rightarrow> ChatMessage" where
  "assistantMessage r =
     \<lparr>role = Assistant, content = message r, tool_calls = toolCalls r, tool_call_id = None\<rparr>"

definition addChanges :: "EntityChanges \<Rightarrow> EntityChanges list \<Rightarrow> EntityChanges" where
  "addChanges acc results =
     \<lparr>changes_created = changes_created acc @ concat (map changes_created results),
      changes_updated = changes_updated acc @ concat (map changes_updated results),
      changes_deleted = changes_deleted acc @ concat (map changes_deleted results)\<rparr>"

text \<open>
  The loop \<open>while (aiResult.toolCalls && aiResult.toolCalls.length > 0)\<close>. The source has
  no bound on the number of rounds: a model that asks for tools for ever gives \<open>None\<close>.
\<close>

partial_function (option) toolLoop ::
  "env \<Rightarrow> AIExecutionConfig \<Rightarrow> AssistantTool list \<Rightarrow> AIExecutionResult \<Rightarrow> ChatMessage list
     \<Rightarrow> EntityChanges \<Rightarrow> world \<Rightarrow> ((thrown + AIExecutionResult \<times> EntityChanges) \<times> world) option" where
  "toolLoop E config tools aiResult messages changes w =
     (case toolCalls aiResult of
        Some (c # cs) \<Rightarrow>
          (case promise_all (map (processToolCallWithEntities E tools) (c # cs)) w of
             (Inl e, w1) \<Rightarrow>
               Some (Inl (handleAppError e ''Error processing tool calls batch'' INTERNAL_ERROR), w1)
           | (Inr toolCallResults, w1) \<Rightarrow>
               (case executeAICall E (config\<lparr>config_messages := messages @ map fst toolCallResults\<rparr>) w1 of
                  (Inl e, w2) \<Rightarrow>
                    Some (Inl (handleAppError e ''Error processing tool calls batch'' INTERNAL_ERROR), w2)
                | (Inr aiResult1, w2) \<Rightarrow>
                    toolLoop E config tools aiResult1
                      (messages @ map fst toolCallResults @ [assistantMessage aiResult1])
                      (addChanges changes (map snd toolCallResults)) w2))
      | _ \<Rightarrow> Some (Inr (aiResult, changes), w))"

declare toolLoop.simps [code]

text \<open>
  After the loop the objectives of the last reply replace those of the thread; a failure
  of that update is written to the console and ignored.
\<close>

definition updateObjectivesBestEffort :: "env \<Rightarrow> Thread \<Rightarrow> AIExecutionResult \<Rightarrow> world \<Rightarrow> world" where
  "updateObjectivesBestEffort E thread aiResult w =
     (if userObjectives aiResult \<noteq> []
      then (case updateThread E (Thread_id thread) None (Some (userObjectives aiResult)) w of
              (Inl e, w1) \<Rightarrow> emit (Console ''Fehler beim Aktualisieren der Benutzerziele:'') w1
            | (Inr t, w1) \<Rightarrow> w1)
      else w)"

definition processToolCalls ::
  "env \<Rightarrow> AIExecutionConfig \<Rightarrow> AssistantTool list \<Rightarrow> Thread \<Rightarrow> world
     \<Rightarrow> ((thrown + AssistantResponse) \<times> world) option" where
  "processToolCalls E config tools thread w =
     (case executeAICall E config w of
        (Inl e, w1) \<Rightarrow>
          Some (Inl (handleAppError e ''Error in tool calls processing'' INTERNAL_ERROR), w1)
      | (Inr aiResult, w1) \<Rightarrow>
          (case toolLoop E config tools aiResult (config_messages config @ [assistantMessage aiResult])
                  \<lparr>changes_created = [], changes_updated = [], changes_deleted = []\<rparr> w1 of
             None \<Rightarrow> None
           | Some (Inl e, w2) \<Rightarrow>
               Some (Inl (handleAppError e ''Error in tool calls processing'' INTERNAL_ERROR), w2)
           | Some (Inr (final, changes), w2) \<Rightarrow>
               Some (Inr \<lparr>response_message = message final,
                          response_threadId = Thread_id thread,
                          response_created = changes_created changes,
                          response_updated = changes_updated changes,
                          response_deleted = changes_deleted changes\<rparr>,
                     updateObjectivesBestEffort E thread final w2)))"

section \<open>The orchestrator (services/assistant/assistant.service.ts)\<close>

record AssistantRequest =
  request_message :: string
  request_userId :: string
  request_threadId :: "string option"
  request_context :: "json option"
  request_sources :: "json list option"

text \<open>\<open>contextSchema\<close> is the success of the configured schema on the context of a request.\<close>

record AssistantConfig =
  title :: string
  model :: string
  systemMessage :: string
  tools :: "AssistantTool list option"
  contextSchema :: "json option \<Rightarrow> bool"
  onToken :: bool
  similarity :: real
  matchCount :: int

definition isString :: "json option \<Rightarrow> bool" where
  "isString v = (case v of Some (JStr s) \<Rightarrow> True | _ \<Rightarrow> False)"

definition assistantSourceSchema :: "json \<Rightarrow> bool" where
  "assistantSourceSchema j =
     (case j of
        JObj kvs \<Rightarrow>
          isString (map_of kvs ''id'') \<and> isString (map_of kvs ''type'') \<and>
          isString (map_of kvs ''content'') \<and>
          (case map_of kvs ''metadata'' of None \<Rightarrow> True | Some (JObj m) \<Rightarrow> True | Some other \<Rightarrow> False)
      | _ \<Rightarrow> False)"

definition assistantRequestSchema :: "(json option \<Rightarrow> bool) \<Rightarrow> AssistantRequest \<Rightarrow> bool" where
  "assistantRequestSchema ctx request \<longleftrightarrow>
     1 \<le> length (request_message request) \<and>
     1 \<le> length (request_userId request) \<and>
     ctx (request_context request) \<and>
     (case request_sources request of None \<Rightarrow> True | Some srcs \<Rightarrow> list_all assistantSourceSchema srcs)"

definition validateRequest :: "AssistantConfig \<Rightarrow> AssistantRequest \<Rightarrow> thrown + AssistantRequest" where
  "validateRequest cfg request =
     rethrow ''Request Validation Error'' VALIDATION_ERROR
       (if assistantRequestSchema (contextSchema cfg) request then Inr request
        else Inl (throwAppError ''Invalid Assistant Request'' VALIDATION_ERROR []))"

definition getThread :: "env \<Rightarrow> AssistantConfig \<Rightarrow> AssistantRequest \<Rightarrow> world \<Rightarrow> (thrown + Thread) \<times> world" where
  "getThread E cfg request w =
     (case (case request_threadId request of
              Some (c # cs) \<Rightarrow>
                (case readThread E (c # cs) w of
                   (Inl e, w1) \<Rightarrow> (Inl e, w1)
                 | (Inr (Some existingThread), w1) \<Rightarrow> (Inr existingThread, w1)
                 | (Inr None, w1) \<Rightarrow> createThread E (request_userId request) (title cfg) w1)
            | _ \<Rightarrow> createThread E (request_userId request) (title cfg) w) of
        (r, w2) \<Rightarrow> (rethrow ''Thread Retrieval Error'' DATABASE_ERROR r, w2))"

definition findSimilarMessages ::
  "env \<Rightarrow> string \<Rightarrow> string \<Rightarrow> real \<Rightarrow> int \<Rightarrow> world \<Rightarrow> (thrown + MessageEmbedding list) \<times> world" where
  "findSimilarMessages E threadId query sim cnt w =
     (case generateEmbeddings E query w of
        (Inl e, w1) \<Rightarrow> (rethrow ''Find Similar Messages Error'' DATABASE_ERROR (Inl e), w1)
      | (Inr embedding, w1) \<Rightarrow>
          (case db_rpc_match_embeddings E embedding sim cnt threadId w1 of
             ((data, err), w2) \<Rightarrow>
               (rethrow ''Find Similar Messages Error'' DATABASE_ERROR
                 (if err \<noteq> None
                  then Inl (throwAppError (''Message Embedding Error: '' @ query) NOT_FOUND [])
                  else case data of
                         None \<Rightarrow> Inr []
                       | Some rows \<Rightarrow> Inr (map toMessageEmbedding rows)), w2)))"

text \<open>
  The test \<open>thread.userObjectives && thread.userObjectives.length > 0\<close> on whatever value
  the thread carries. \<open>lengthOf\<close> is the property \<open>length\<close>: the number of elements of an
  array, the number of characters of a string, the member of that name of an object,
  \<open>undefined\<close> otherwise. \<open>greaterThanZero\<close> is the comparison \<open>> 0\<close>, which turns its
  left side into a number.
\<close>

definition lengthOf :: "json \<Rightarrow> json option" where
  "lengthOf v =
     (case v of
        JArr xs \<Rightarrow> Some (JNum (int (length xs)))
      | JStr s \<Rightarrow> Some (JNum (int (length s)))
      | JObj kvs \<Rightarrow> map_of kvs ''length''
      | _ \<Rightarrow> None)"

definition greaterThanZero :: "env \<Rightarrow> json option \<Rightarrow> bool" where
  "greaterThanZero E x =
     (case x of
        None \<Rightarrow> False
      | Some JNull \<Rightarrow> False
      | Some (JBool b) \<Rightarrow> b
      | Some (JNum n) \<Rightarrow> 0 < n
      | Some (JStr s) \<Rightarrow> positive E s
      | Some (JArr ys) \<Rightarrow> positive E (toStringJS (JArr ys))
      | Some (JObj kvs) \<Rightarrow> False)"

definition hasObjectives :: "env \<Rightarrow> Thread \<Rightarrow> bool" where
  "hasObjectives E thread =
     (case Thread_userObjectives thread of
        None \<Rightarrow> False
      | Some v \<Rightarrow> truthy v \<and> greaterThanZero E (lengthOf v))"

text \<open>
  The system content. When the test succeeds the objectives are listed with
  \<open>thread.userObjectives.map((obj) => `- ${obj}`).join("\n")\<close>; on a value that is no
  array \<open>map\<close> is not a function, and the \<open>TypeError\<close> is thrown inside the \<open>try\<close> block
  of \<open>prepareProcess\<close>.
\<close>

definition systemContent :: "env \<Rightarrow> AssistantConfig \<Rightarrow> Thread \<Rightarrow> thrown + string" where
  "systemContent E cfg thread =
     (if hasObjectives E thread
      then (case Thread_userObjectives thread of
              Some (JArr objs) \<Rightarrow>
                Inr (systemMessage cfg @ [CHR 0x0A, CHR 0x0A] @ ''User Objectives:'' @ [CHR 0x0A] @
                     joinWith [CHR 0x0A] (map (\<lambda>obj. ''- '' @ toStringJS obj) objs))
            | _ \<Rightarrow> Inl (JsError ''thread.userObjectives.map is not a function''))
      else Inr (systemMessage cfg))"

definition historyMessage :: "MessageEmbedding \<Rightarrow> ChatMessage" where
  "historyMessage msg =
     \<lparr>role = MessageEmbedding_role msg, content = MessageEmbedding_content msg,
      tool_calls = None, tool_call_id = None\<rparr>"

definition plainMessage :: "ChatRole \<Rightarrow> string \<Rightarrow> ChatMessage" where
  "plainMessage r text = \<lparr>role = r, content = text, tool_calls = None, tool_call_id = None\<rparr>"

text \<open>
  \<open>Array.prototype.sort\<close> with the comparator \<open>a.orderIndex - b.orderIndex\<close> is a stable
  sort by order index, as \<open>sort_key\<close> is.
\<close>

definition prepareProcess ::
  "env \<Rightarrow> AssistantConfig \<Rightarrow> AssistantRequest \<Rightarrow> Thread \<Rightarrow> world \<Rightarrow> (thrown + AIExecutionConfig) \<times> world" where
  "prepareProcess E cfg request thread w =
     (case systemContent E cfg thread of
        Inl e \<Rightarrow> (Inl (handleAppError e ''Process Preparation Error'' INTERNAL_ERROR), w)
      | Inr systemText \<Rightarrow>
          (case (if request_message request \<noteq> []
                 then (case findSimilarMessages E (Thread_id thread) (request_message request)
                              (similarity cfg) (matchCount cfg) w of
                         (Inl e, w1) \<Rightarrow> (Inl e, w1)
                       | (Inr similarMessages, w1) \<Rightarrow>
                           (Inr (map historyMessage
                                   (sort_key MessageEmbedding_orderIndex similarMessages)), w1))
                 else (Inr [], w)) of
             (Inl e, w1) \<Rightarrow> (Inl (handleAppError e ''Process Preparation Error'' INTERNAL_ERROR), w1)
           | (Inr history, w1) \<Rightarrow>
               (Inr \<lparr>config_model = model cfg,
                     config_systemMessage = systemMessage cfg,
                     config_messages =
                       plainMessage System systemText # history @
                       [plainMessage User (request_message request)],
                     config_tools = tools cfg,
                     config_onToken = onToken cfg,
                     config_responseFormat = None\<rparr>, w1)))"

text \<open>
  \<open>processRequest\<close> without tools: the embedding, the update of the objectives (when the
  reply has any) and the next order index are all started before the first of them is
  awaited; the fragment is created when the embedding and the index are there, and the
  update is awaited last.
\<close>

definition processPlain ::
  "env \<Rightarrow> AIExecutionConfig \<Rightarrow> Thread \<Rightarrow> world \<Rightarrow> (thrown + AssistantResponse) \<times> world" where
  "processPlain E config thread w =
     (case executeAICall E config w of
        (Inl e, w1) \<Rightarrow> (Inl e, w1)
      | (Inr aiResult, w1) \<Rightarrow>
          (case generateEmbeddings E (message aiResult) w1 of
             (embedding, w2) \<Rightarrow>
               (case (if userObjectives aiResult \<noteq> []
                      then (case updateThread E (Thread_id thread) None (Some (userObjectives aiResult)) w2 of
                              (Inl e, w') \<Rightarrow> (Some e, w')
                            | (Inr t, w') \<Rightarrow> (None, w'))
                      else (None, w2)) of
                  (threadUpdate, w3) \<Rightarrow>
                    (case getNextOrderIndex E (Thread_id thread) w3 of
                       (orderIndex, w4) \<Rightarrow>
                         (case embedding of
                            Inl e \<Rightarrow> (Inl e, w4)
                          | Inr emb \<Rightarrow>
                              (case orderIndex of
                                 Inl e \<Rightarrow> (Inl e, w4)
                               | Inr idx \<Rightarrow>
                                   (case createMessage E (Thread_id thread) idx 0 Assistant
                                           (message aiResult) emb w4 of
                                      (Inl e, w5) \<Rightarrow> (Inl e, w5)
                                    | (Inr m, w5) \<Rightarrow>
                                        (case threadUpdate of
                                           Some e \<Rightarrow> (Inl e, w5)
                                         | None \<Rightarrow>
                                             (Inr \<lparr>response_message = message aiResult,
                                                   response_threadId = Thread_id thread,
                                                   response_created = (case created aiResult of None \<Rightarrow> [] | Some xs \<Rightarrow> xs),
                                                   response_updated = (case updated aiResult of None \<Rightarrow> [] | Some xs \<Rightarrow> xs),
                                                   response_deleted = (case deleted aiResult of None \<Rightarrow> [] | Some xs \<Rightarrow> xs)\<rparr>,
                                              w5)))))))))"

definition processRequest ::
  "env \<Rightarrow> AssistantConfig \<Rightarrow> AIExecutionConfig \<Rightarrow> Thread \<Rightarrow> world
     \<Rightarrow> ((thrown + AssistantResponse) \<times> world) option" where
  "processRequest E cfg config thread w =
     (case (case tools cfg of
              Some (t # ts) \<Rightarrow> processToolCalls E config (t # ts) thread w
            | _ \<Rightarrow> Some (processPlain E config thread w)) of
        None \<Rightarrow> None
      | Some (r, w1) \<Rightarrow> Some (rethrow ''Request Processing Error'' INTERNAL_ERROR r, w1))"

definition updateMessages ::
  "env \<Rightarrow> string \<Rightarrow> string \<Rightarrow> ChatRole \<Rightarrow> int \<Rightarrow> world \<Rightarrow> (thrown + unit) \<times> world" where
  "updateMessages E text threadId rl orderIndex w =
     (case generateEmbeddingChunks E text w of
        (Inl e, w1) \<Rightarrow> (rethrow ''Update Messages Error'' INTERNAL_ERROR (Inl e), w1)
      | (Inr embeddingChunks, w1) \<Rightarrow>
          (case promise_all
                  (map (\<lambda>(i, chunk). createMessage E threadId orderIndex (int i) rl
                                        (chunk_content chunk) (chunk_embedding chunk))
                       (zip [0..<length embeddingChunks] embeddingChunks)) w1 of
             (Inl e, w2) \<Rightarrow> (rethrow ''Update Messages Error'' INTERNAL_ERROR (Inl e), w2)
           | (Inr ms, w2) \<Rightarrow> (Inr (), w2)))"

definition postProcess ::
  "env \<Rightarrow> AssistantRequest \<Rightarrow> Thread \<Rightarrow> AssistantResponse \<Rightarrow> world \<Rightarrow> (thrown + unit) \<times> world" where
  "postProcess E request thread response w =
     (case getNextOrderIndex E (Thread_id thread) w of
        (Inl e, w1) \<Rightarrow> (rethrow ''Post Processing Error'' INTERNAL_ERROR (Inl e), w1)
      | (Inr orderIndex, w1) \<Rightarrow>
          (case promise_all
                  [updateMessages E (request_message request) (Thread_id thread) User orderIndex,
                   updateMessages E (response_message response) (Thread_id thread) Assistant (orderIndex + 1)]
                  w1 of
             (Inl e, w2) \<Rightarrow> (rethrow ''Post Processing Error'' INTERNAL_ERROR (Inl e), w2)
           | (Inr us, w2) \<Rightarrow> (Inr (), w2)))"

text \<open>\<open>Assistant.thread\<close>: the five steps in order, each failure wrapped by the outer \<open>catch\<close>.\<close>

definition thread ::
  "env \<Rightarrow> AssistantConfig \<Rightarrow> AssistantRequest \<Rightarrow> world \<Rightarrow> ((thrown + AssistantResponse) \<times> world) option" where
  "thread E cfg request w =
     (case (case validateRequest cfg request of
              Inl e \<Rightarrow> Some (Inl e, w)
            | Inr validatedRequest \<Rightarrow>
                (case getThread E cfg validatedRequest w of
                   (Inl e, w1) \<Rightarrow> Some (Inl e, w1)
                 | (Inr thr, w1) \<Rightarrow>
                     (case prepareProcess E cfg validatedRequest thr w1 of
                        (Inl e, w2) \<Rightarrow> Some (Inl e, w2)
                      | (Inr processConfig, w2) \<Rightarrow>
                          (case processRequest E cfg processConfig thr w2 of
                             None \<Rightarrow> None
                           | Some (Inl e, w3) \<Rightarrow> Some (Inl e, w3)
                           | Some (Inr response, w3) \<Rightarrow>
                               (case postProcess E validatedRequest thr response w3 of
                                  (Inl e, w4) \<Rightarrow> Some (Inl e, w4)
                                | (Inr u, w4) \<Rightarrow> Some (Inr response, w4)))))) of
        None \<Rightarrow> None
      | Some (r, w5) \<Rightarrow> Some (rethrow ''Assistant Thread Error'' INTERNAL_ERROR r, w5))"

section \<open>Rows of a chunked message\<close>

text \<open>
  The rows that \<open>updateMessages\<close> asks the store to insert for a message split into the
  given snippets: one row per snippet, in order, the position of the snippet as chunk
  index, each with the embedding of its own snippet.
\<close>

definition embeddingText :: "env \<Rightarrow> string \<Rightarrow> string" where
  "embeddingText E s = (case embedQuery E s of Inl e \<Rightarrow> [] | Inr emb \<Rightarrow> emb)"

definition chunkRow :: "env \<Rightarrow> string \<Rightarrow> int \<Rightarrow> ChatRole \<Rightarrow> nat \<times> string \<Rightarrow> embeddings_row" where
  "chunkRow E threadId orderIndex rl p =
     \<lparr>embeddings_thread_id = threadId, embeddings_order_index = orderIndex,
      embeddings_chunk_index = int (fst p), embeddings_role = rl,
      embeddings_content = snd p, embeddings_embedding = embeddingText E (snd p)\<rparr>"

definition chunkRows :: "env \<Rightarrow> string \<Rightarrow> int \<Rightarrow> ChatRole \<Rightarrow> string list \<Rightarrow> embeddings_row list" where
  "chunkRows E threadId orderIndex rl snippets =
     map (chunkRow E threadId orderIndex rl) (zip [0..<length snippets] snippets)"

section \<open>Positions in a text\<close>





section \<open>Counting effects\<close>

fun toolRuns :: "event list \<Rightarrow> nat" where
  "toolRuns [] = 0"
| "toolRuns (ToolRun n a # evs) = Suc (toolRuns evs)"
| "toolRuns (ev # evs) = toolRuns evs"

text \<open>
  A tool call can be executed when it names a registered tool and its arguments parse and
  pass the schema of that tool.
\<close>

definition executable :: "env \<Rightarrow> AssistantTool list \<Rightarrow> ToolCall \<Rightarrow> bool" where
  "executable E ts tc =
     (case find (\<lambda>t. tool_name t = ToolCall_name tc) ts of
        None \<Rightarrow> False
      | Some tool \<Rightarrow>
          (case JSON_parse E (ToolCall_arguments tc) of
             None \<Rightarrow> False
           | Some args \<Rightarrow> argsSchema tool args \<noteq> None))"

section \<open>Example environments and stores\<close>

definition pgrst116 :: db_error where
  "pgrst116 = \<lparr>error_code = ''PGRST116'', error_text = ''[object Object]''\<rparr>"

definition timeout57014 :: db_error where
  "timeout57014 = \<lparr>error_code = ''57014'', error_text = ''[object Object]''\<rparr>"

text \<open>
  An environment that serves every query and knows no JSON. Its subtraction is exact, as
  the subtraction of \<open>double precision\<close> is on the distances of the examples, and no
  example hands a string to \<open>ToNumber\<close>.
\<close>

definition quietEnv :: env where
  "quietEnv = \<lparr>db_error_at = (\<lambda>n q. None), single_no_row = None,
               gen_random_uuid = (\<lambda>n. ''thread-new''), distance = (\<lambda>a b. 0),
               float8mi = (\<lambda>a b. a - b), positive = (\<lambda>s. False),
               chat_completion = (\<lambda>n ms. Inr []), chat_stream = (\<lambda>n ms. Inr []),
               embedQuery = (\<lambda>s. Inr (''E:'' @ s)), splitText = (\<lambda>s. Inr [s]),
               JSON_parse = (\<lambda>s. None), JSON_stringify = (\<lambda>j. [])\<rparr>"

definition fragment :: "string \<Rightarrow> int \<Rightarrow> int \<Rightarrow> ChatRole \<Rightarrow> string \<Rightarrow> embeddings_row" where
  "fragment t i c r s =
     \<lparr>embeddings_thread_id = t, embeddings_order_index = i, embeddings_chunk_index = c,
      embeddings_role = r, embeddings_content = s, embeddings_embedding = ''E:'' @ s\<rparr>"

definition emptyWorld :: world where
  "emptyWorld = \<lparr>threads = [], embeddings = [], trace = []\<rparr>"

definition storedWorld :: world where
  "storedWorld =
     \<lparr>threads = [\<lparr>threads_id = ''t1'', threads_user_id = ''u1'', threads_title = Some ''Helper'',
                   threads_user_objectives = JStr ''[]''\<rparr>],
      embeddings = [fragment ''t1'' 1 0 User ''hello'', fragment ''t2'' 7 0 User ''other'',
                    fragment ''t1'' 2 0 Assistant ''hi'', fragment ''t1'' 2 1 Assistant ''there''],
      trace = []\<rparr>"

text \<open>A rendering of JSON values, used as \<open>JSON.stringify\<close> in the examples.\<close>

fun render :: "json \<Rightarrow> string" where
  "render JNull = ''null''"
| "render (JBool b) = (if b then ''true'' else ''false'')"
| "render (JNum i) = (if i < 0 then ''-'' @ digits (nat (- i)) else digits (nat i))"
| "render (JStr s) = [CHR 0x22] @ s @ [CHR 0x22]"
| "render (JArr xs) = ''['' @ joinWith '','' (map render xs) @ '']''"
| "render (JObj kvs) =
     ''{'' @ joinWith '','' (map (\<lambda>(k, v). [CHR 0x22] @ k @ [CHR 0x22] @ '':'' @ render v) kvs) @ ''}''"

text \<open>
  \<open>JSON.parse\<close> on the texts the examples hand to it; every other text they hand to it is
  not JSON.
\<close>

definition parseTable :: "string \<Rightarrow> json option" where
  "parseTable =
     map_of [(''{}'', JObj []),
             (''[]'', JArr []),
             (''[1,2]'', JArr [JNum 1, JNum 2]),
             (render (JObj [(''temperature'', JNum 22), (''condition'', JStr ''sunny'')]),
              JObj [(''temperature'', JNum 22), (''condition'', JStr ''sunny'')]),
             (render (JObj [(''error'', JStr ''AssistantTool Call Error: '')]),
              JObj [(''error'', JStr ''AssistantTool Call Error: '')]),
             (render (JObj [(''error'', JStr ''Tool not found: missing: '')]),
              JObj [(''error'', JStr ''Tool not found: missing: '')]),
             (render (JObj [(''error'', JStr ''Tool not found: getWeather: '')]),
              JObj [(''error'', JStr ''Tool not found: getWeather: '')]),
             (render (JObj [(''error'', JStr ''Invalid tool arguments format: '')]),
              JObj [(''error'', JStr ''Invalid tool arguments format: '')])]"

definition jsonEnv :: env where
  "jsonEnv = quietEnv\<lparr>JSON_parse := parseTable, JSON_stringify := render\<rparr>"

definition objectSchema :: "json \<Rightarrow> json option" where
  "objectSchema j = (case j of JObj kvs \<Rightarrow> Some j | _ \<Rightarrow> None)"

definition weatherTool :: AssistantTool where
  "weatherTool =
     \<lparr>tool_name = ''getWeather'', tool_description = ''Get the current weather for a location'',
      tool_type = GET, argsSchema = objectSchema,
      callFunction = (\<lambda>args. Inr (JObj [(''temperature'', JNum 22), (''condition'', JStr ''sunny'')]))\<rparr>"

definition brokenTool :: AssistantTool where
  "brokenTool =
     \<lparr>tool_name = ''getStock'', tool_description = ''Get the stock of a product'',
      tool_type = GET, argsSchema = objectSchema,
      callFunction = (\<lambda>args. Inl (JsError ''service down''))\<rparr>"

definition toolCall :: "string \<Rightarrow> string \<Rightarrow> string \<Rightarrow> ToolCall" where
  "toolCall i n a = \<lparr>ToolCall_id = i, ToolCall_name = n, ToolCall_arguments = a\<rparr>"

definition helperConfig :: AssistantConfig where
  "helperConfig =
     \<lparr>title = ''Helper'', model = ''gpt-4o'',
      systemMessage = ''You are a helpful test assistant.'', tools = None,
      contextSchema = (\<lambda>c. True), onToken = False, similarity = 0.7, matchCount = 5\<rparr>"

definition request :: "string \<Rightarrow> string \<Rightarrow> string option \<Rightarrow> AssistantRequest" where
  "request text uid tid =
     \<lparr>request_message = text, request_userId = uid, request_threadId = tid,
      request_context = None, request_sources = None\<rparr>"

definition plainExecution :: AIExecutionConfig where
  "plainExecution =
     \<lparr>config_model = ''gpt-4o'', config_systemMessage = ''You are a helpful test assistant.'',
      config_messages = [plainMessage User ''What changed?''], config_tools = None,
      config_onToken = False, config_responseFormat = None\<rparr>"

text \<open>A provider that answers \<open>CREATED: [1,2]\<close>, in one piece or streamed in two.\<close>

definition createdEnv :: env where
  "createdEnv =
     jsonEnv\<lparr>chat_completion :=
                (\<lambda>n ms. Inr [\<lparr>Choice_content = Some ''CREATED: [1,2]'', Choice_tool_calls = None\<rparr>]),
              chat_stream :=
                (\<lambda>n ms. Inr [\<lparr>Delta_content = Some ''CREATED: '', Delta_tool_calls = None\<rparr>,
                              \<lparr>Delta_content = Some ''[1,2]'', Delta_tool_calls = None\<rparr>])\<rparr>"

text \<open>A store whose similarity search ranks the later fragments of a thread first.\<close>

definition rankedEnv :: env where
  "rankedEnv = quietEnv\<lparr>distance := (\<lambda>a b. if a = ''E:hello'' then 0.25 else 0.125)\<rparr>"

definition storedThread :: Thread where
  "storedThread =
     \<lparr>Thread_id = ''t1'', Thread_userId = ''u1'', Thread_title = Some ''Helper'',
      Thread_userObjectives = Some (JArr [JStr ''learn HOL'', JStr ''write proofs''])\<rparr>"

text \<open>
  A provider whose reply states an objective, and a store that refuses every update of a
  thread with its unauthorized signal.
\<close>

definition refuseUpdates :: "nat \<Rightarrow> db_request \<Rightarrow> db_error option" where
  "refuseUpdates n q = (case q of UpdateThread tid ttl objs \<Rightarrow> Some pgrst116 | _ \<Rightarrow> None)"

definition objectiveEnv :: env where
  "objectiveEnv =
     jsonEnv\<lparr>chat_completion :=
                 (\<lambda>n ms. Inr [\<lparr>Choice_content = Some ''Noted. USER_OBJECTIVE: learn HOL'',
                                Choice_tool_calls = None\<rparr>]),
               db_error_at := refuseUpdates\<rparr>"

text \<open>
  A provider that answers in plain text; a store that rejects the lookup of a thread
  identifier that is no UUID (code 22P02); a store whose \<open>.single()\<close> reports a missing
  row with the code \<open>PGRST116\<close>.
\<close>

definition invalidUuid :: db_error where
  "invalidUuid = \<lparr>error_code = ''22P02'', error_text = ''[object Object]''\<rparr>"

definition rejectLookups :: "nat \<Rightarrow> db_request \<Rightarrow> db_error option" where
  "rejectLookups n q = (case q of SelectThread tid \<Rightarrow> Some invalidUuid | _ \<Rightarrow> None)"

definition replyEnv :: env where
  "replyEnv =
     jsonEnv\<lparr>chat_completion :=
                 (\<lambda>n ms. Inr [\<lparr>Choice_content = Some ''Hello there'', Choice_tool_calls = None\<rparr>])\<rparr>"

definition postgrestEnv :: env where
  "postgrestEnv = replyEnv\<lparr>single_no_row := Some pgrst116\<rparr>"

text \<open>
  A provider that asks for the weather tool once and then answers in plain text: with
  well-formed arguments, and with arguments that are not JSON.
\<close>

definition weatherReply :: "string \<Rightarrow> nat \<Rightarrow> ChatMessage list \<Rightarrow> thrown + Choice list" where
  "weatherReply arguments n ms =
     (if n = 0
      then Inr [\<lparr>Choice_content = None,
                 Choice_tool_calls = Some [toolCall ''call_1'' ''getWeather'' arguments]\<rparr>]
      else Inr [\<lparr>Choice_content = Some ''It is sunny, 22 degrees.'', Choice_tool_calls = None\<rparr>])"

definition weatherEnv :: "string \<Rightarrow> env" where
  "weatherEnv arguments = jsonEnv\<lparr>chat_completion := weatherReply arguments\<rparr>"

definition weatherExecution :: AIExecutionConfig where
  "weatherExecution =
     \<lparr>config_model = ''gpt-4o'', config_systemMessage = ''You are a helpful weather assistant.'',
      config_messages = [plainMessage System ''You are a helpful weather assistant.'',
                         plainMessage User ''What is the weather in Berlin?''],
      config_tools = Some [weatherTool], config_onToken = False, config_responseFormat = None\<rparr>"

text \<open>A text splitter that cuts after ten characters.\<close>

definition chunkEnv :: env where
  "chunkEnv = replyEnv\<lparr>splitText := (\<lambda>s. Inr (if length s \<le> 10 then [s] else [take 10 s, drop 10 s]))\<rparr>"

section \<open>Properties\<close>

lemma emit_simps [simp]:
  "threads (emit ev w) = threads w"
  "embeddings (emit ev w) = embeddings w"
  "trace (emit ev w) = trace w @ [ev]"
  by (simp_all add: emit_def)

lemma structured_None [simp]: "structured E None text = (None, False)"
  by (simp add: structured_def)

subsection \<open>Order indices\<close>

lemma sorted_last_Max:
  fixes ys :: "int list"
  shows "sorted ys \<Longrightarrow> ys \<noteq> [] \<Longrightarrow> last ys = Max (set ys)"
proof (induction ys)
  case Nil
  then show ?case by simp
next
  case (Cons y ys)
  show ?case
  proof (cases "ys = []")
    case True
    then show ?thesis by simp
  next
    case False
    then have ih: "last ys = Max (set ys)" using Cons by simp
    have "last ys \<in> set ys" using False by simp
    then have "y \<le> last ys" using Cons.prems(1) by auto
    then show ?thesis using False ih by (simp add: max_def)
  qed
qed

lemma highest_first:
  fixes xs :: "int list"
  assumes "xs \<noteq> []"
  shows "take 1 (rev (sort xs)) = [Max (set xs)]"
proof -
  have ne: "sort xs \<noteq> []" using assms by (metis length_0_conv length_sort)
  then obtain z zs where z: "rev (sort xs) = z # zs" by (cases "rev (sort xs)") auto
  then have "z = hd (rev (sort xs))" by simp
  also have "\<dots> = last (sort xs)" by (simp add: hd_rev)
  also have "\<dots> = Max (set (sort xs))" using ne by (intro sorted_last_Max) simp_all
  finally show ?thesis using z by simp
qed

text \<open>
  C10. \<open>getNextOrderIndex\<close> returns the highest order index stored for the thread plus one
  when the thread has fragments; it returns 1 when the thread has none, and also when the
  store reports any error other than its unauthorized signal \<open>PGRST116\<close>: such an error is
  swallowed, no \<open>DATABASE_ERROR\<close> is raised.
\<close>

theorem getNextOrderIndex_highest_plus_one:
  "(db_error_at E (length (trace w)) (SelectOrderIndex t) = None \<and> orderIndices t w \<noteq> []
      \<longrightarrow> fst (getNextOrderIndex E t w) = Inr (Max (set (orderIndices t w)) + 1)) \<and>
   (db_error_at E (length (trace w)) (SelectOrderIndex t) = None \<and> orderIndices t w = []
      \<longrightarrow> fst (getNextOrderIndex E t w) = Inr 1) \<and>
   (db_error_at E (length (trace w)) (SelectOrderIndex t) = Some e \<and> error_code e \<noteq> ''PGRST116''
      \<longrightarrow> fst (getNextOrderIndex E t w) = Inr 1)"
proof (intro conjI impI)
  assume a: "db_error_at E (length (trace w)) (SelectOrderIndex t) = None \<and> orderIndices t w \<noteq> []"
  then have "take 1 (rev (sort (orderIndices t w))) = [Max (set (orderIndices t w))]"
    using highest_first by blast
  then show "fst (getNextOrderIndex E t w) = Inr (Max (set (orderIndices t w)) + 1)"
    using a by (simp add: getNextOrderIndex_def db_select_order_index_def orderIndices_def
        isUnauthorized_def rethrow_def Let_def)
next
  assume "db_error_at E (length (trace w)) (SelectOrderIndex t) = None \<and> orderIndices t w = []"
  then show "fst (getNextOrderIndex E t w) = Inr 1"
    by (simp add: getNextOrderIndex_def db_select_order_index_def orderIndices_def
        isUnauthorized_def rethrow_def Let_def)
next
  assume "db_error_at E (length (trace w)) (SelectOrderIndex t) = Some e \<and> error_code e \<noteq> ''PGRST116''"
  then show "fst (getNextOrderIndex E t w) = Inr 1"
    by (simp add: getNextOrderIndex_def db_select_order_index_def
        isUnauthorized_def rethrow_def Let_def)
qed

theorem getNextOrderIndex_highest_plus_one_witness:
  "orderIndices ''t1'' storedWorld \<noteq> [] \<and>
   fst (getNextOrderIndex quietEnv ''t1'' storedWorld) = Inr 3 \<and>
   orderIndices ''t9'' storedWorld = [] \<and>
   fst (getNextOrderIndex quietEnv ''t9'' storedWorld) = Inr 1 \<and>
   error_code timeout57014 \<noteq> ''PGRST116'' \<and>
   fst (getNextOrderIndex (quietEnv\<lparr>db_error_at := (\<lambda>n q. Some timeout57014)\<rparr>) ''t1'' storedWorld) = Inr 1"
proof -
  have i: "orderIndices ''t1'' storedWorld = [1, 2, 2]" "orderIndices ''t9'' storedWorld = []"
    by (simp_all add: orderIndices_def storedWorld_def fragment_def)
  have q: "db_error_at quietEnv (length (trace storedWorld)) (SelectOrderIndex ''t1'') = None"
    "db_error_at quietEnv (length (trace storedWorld)) (SelectOrderIndex ''t9'') = None"
    by (simp_all add: quietEnv_def)
  have f: "db_error_at (quietEnv\<lparr>db_error_at := (\<lambda>n q. Some timeout57014)\<rparr>)
             (length (trace storedWorld)) (SelectOrderIndex ''t1'') = Some timeout57014"
    by simp
  have c: "error_code timeout57014 \<noteq> ''PGRST116''" by (simp add: timeout57014_def)
  show ?thesis
    using getNextOrderIndex_highest_plus_one [of quietEnv storedWorld "''t1''" timeout57014]
      getNextOrderIndex_highest_plus_one [of quietEnv storedWorld "''t9''" timeout57014]
      getNextOrderIndex_highest_plus_one
        [of "quietEnv\<lparr>db_error_at := (\<lambda>n q. Some timeout57014)\<rparr>" storedWorld "''t1''" timeout57014]
      i q f c
    by simp
qed

subsection \<open>Validation\<close>

text \<open>
  C6. A request whose message is the empty string makes \<open>Assistant.thread\<close> fail with an
  error of kind \<open>VALIDATION_ERROR\<close>, and the world it leaves is the one it found: no store
  query, no embedding, no model invocation has been issued.
\<close>

theorem thread_rejects_empty_message:
  assumes "request_message req = []"
  shows "thread E cfg req w =
           Some (Inl (AppError ''Invalid Assistant Request: '' VALIDATION_ERROR), w)"
  using assms
  by (simp add: thread_def validateRequest_def assistantRequestSchema_def rethrow_def
      throwAppError_def)

theorem thread_rejects_empty_message_witness:
  "request_message (request [] ''u1'' None) = [] \<and>
   thread quietEnv helperConfig (request [] ''u1'' None) storedWorld =
     Some (Inl (AppError ''Invalid Assistant Request: '' VALIDATION_ERROR), storedWorld)"
  using thread_rejects_empty_message [of "request [] ''u1'' None" quietEnv helperConfig storedWorld]
  by (simp add: request_def)

subsection \<open>Tool calls\<close>

lemma getTool_found:
  "find (\<lambda>t. tool_name t = n) ts = Some tool \<Longrightarrow> getTool n ts = Inr tool"
  by (simp add: getTool_def)

lemma getTool_missing:
  "find (\<lambda>t. tool_name t = n) ts = None \<Longrightarrow>
   getTool n ts = Inl (AppError (''Tool not found: '' @ n @ '': '') NOT_FOUND)"
  by (simp add: getTool_def throwAppError_def)

text \<open>
  C3, as the code has it. When the named tool exists and its execution fails, the failure
  becomes a tool message whose content is the serialised object \<open>{ error: message }\<close>.
  When no registered tool has the requested name, the \<open>NOT_FOUND\<close> error of the lookup
  is caught in the same way and becomes such a tool message too: nothing is thrown.
\<close>

theorem handleToolCall_contains_every_failure:
  "(find (\<lambda>t. tool_name t = ToolCall_name tc) ts = Some tool \<and>
    JSON_parse E (ToolCall_arguments tc) = Some args \<and> argsSchema tool args = Some v \<and>
    callFunction tool v = Inl err
      \<longrightarrow> fst (handleToolCall E tc ts w) =
            Inr (toolMessage (ToolCall_id tc)
                   (JSON_stringify E (JObj [(''error'',
                      JStr (thrownMessage (handleAppError err ''AssistantTool Call Error'' INTERNAL_ERROR)))])))) \<and>
   (find (\<lambda>t. tool_name t = ToolCall_name tc) ts = None
      \<longrightarrow> fst (handleToolCall E tc ts w) =
            Inr (toolMessage (ToolCall_id tc)
                   (JSON_stringify E (JObj [(''error'',
                      JStr (''Tool not found: '' @ ToolCall_name tc @ '': ''))]))))"
  by (auto simp: handleToolCall_def runToolCall_def getTool_found getTool_missing
      parseToolArguments_def validateArgs_def execute_def rethrow_def)

theorem handleToolCall_contains_every_failure_witness:
  "find (\<lambda>t. tool_name t = ToolCall_name (toolCall ''call_1'' ''getStock'' ''{}'')) [weatherTool, brokenTool]
     = Some brokenTool \<and>
   JSON_parse jsonEnv (ToolCall_arguments (toolCall ''call_1'' ''getStock'' ''{}'')) = Some (JObj []) \<and>
   argsSchema brokenTool (JObj []) = Some (JObj []) \<and>
   callFunction brokenTool (JObj []) = Inl (JsError ''service down'') \<and>
   fst (handleToolCall jsonEnv (toolCall ''call_1'' ''getStock'' ''{}'') [weatherTool, brokenTool] emptyWorld) =
     Inr (toolMessage ''call_1'' (render (JObj [(''error'', JStr ''AssistantTool Call Error: '')]))) \<and>
   find (\<lambda>t. tool_name t = ToolCall_name (toolCall ''call_2'' ''missing'' ''{}'')) [weatherTool, brokenTool]
     = None \<and>
   fst (handleToolCall jsonEnv (toolCall ''call_2'' ''missing'' ''{}'') [weatherTool, brokenTool] emptyWorld) =
     Inr (toolMessage ''call_2'' (render (JObj [(''error'', JStr ''Tool not found: missing: '')])))"
proof -
  have a: "find (\<lambda>t. tool_name t = ToolCall_name (toolCall ''call_1'' ''getStock'' ''{}'')) [weatherTool, brokenTool]
             = Some brokenTool"
    by (simp add: toolCall_def weatherTool_def brokenTool_def)
  have b: "JSON_parse jsonEnv (ToolCall_arguments (toolCall ''call_1'' ''getStock'' ''{}'')) = Some (JObj [])"
    by (simp add: toolCall_def jsonEnv_def parseTable_def)
  have c: "argsSchema brokenTool (JObj []) = Some (JObj [])"
    "callFunction brokenTool (JObj []) = Inl (JsError ''service down'')"
    by (simp_all add: brokenTool_def objectSchema_def)
  have d: "find (\<lambda>t. tool_name t = ToolCall_name (toolCall ''call_2'' ''missing'' ''{}'')) [weatherTool, brokenTool]
             = None"
    by (simp add: toolCall_def weatherTool_def brokenTool_def)
  have s: "JSON_stringify jsonEnv = render" by (simp add: jsonEnv_def)
  show ?thesis
    using handleToolCall_contains_every_failure
            [of "toolCall ''call_1'' ''getStock'' ''{}''" "[weatherTool, brokenTool]" brokenTool
                jsonEnv "JObj []" "JObj []" "JsError ''service down''" emptyWorld]
          handleToolCall_contains_every_failure
            [of "toolCall ''call_2'' ''missing'' ''{}''" "[weatherTool, brokenTool]" brokenTool
                jsonEnv "JObj []" "JObj []" "JsError ''service down''" emptyWorld]
          a b c d
    by (simp add: s throwAppError_def toolCall_def del: render.simps)
qed

text \<open>
  The claim as the specification states it fails: a call that names no registered tool is
  answered with a tool message, not with a thrown \<open>NOT_FOUND\<close> error.
\<close>

theorem handleToolCall_unknown_tool_counterexample:
  "fst (handleToolCall jsonEnv (toolCall ''call_2'' ''missing'' ''{}'') [weatherTool, brokenTool] emptyWorld) =
     Inr (toolMessage ''call_2'' (render (JObj [(''error'', JStr ''Tool not found: missing: '')])))"
  by (simp add: handleToolCall_def runToolCall_def getTool_def toolCall_def weatherTool_def
      brokenTool_def throwAppError_def jsonEnv_def del: render.simps)

subsection \<open>Post-processing of the reply text\<close>

lemma fst_executeAICall:
  "fst (executeAICall E cfg w) =
     rethrow ''AI Execution Error'' INTERNAL_ERROR
       (fst (if config_onToken cfg then executeStreamingAICall E cfg w
             else executeDefaultAICall E cfg w))"
  by (simp add: executeAICall_def split: prod.splits)

text \<open>
  C5. The claim asks for the objective directives and the entity-change blocks to be taken
  from every reply without tool calls, in both modes. The streaming mode does so; the
  default mode takes the objectives only. On the reply \<open>CREATED: [1,2]\<close> the default mode
  returns no \<open>created\<close> list at all, the streaming mode the two entities.
\<close>

theorem executeAICall_default_mode_skips_entity_changes:
  "fst (executeAICall createdEnv plainExecution emptyWorld) =
     Inr \<lparr>message = ''CREATED: [1,2]'', toolCalls = None, userObjectives = [],
          structuredData = None, created = None, updated = None, deleted = None\<rparr> \<and>
   fst (executeAICall createdEnv (plainExecution\<lparr>config_onToken := True\<rparr>) emptyWorld) =
     Inr \<lparr>message = ''CREATED: [1,2]'', toolCalls = None, userObjectives = [],
          structuredData = None, created = Some [JNum 1, JNum 2], updated = Some [],
          deleted = Some []\<rparr>"
proof -
  have o: "extractUserObjectives ''CREATED: [1,2]'' = []"
    by (simp add: extractUserObjectives_def objectiveAt_def USER_OBJECTIVE_def)
  have c: "extractEntityChanges createdEnv ''CREATED: [1,2]'' =
             \<lparr>changes_created = [JNum 1, JNum 2], changes_updated = [], changes_deleted = []\<rparr>"
    by (simp add: extractEntityChanges_def parseEntities_def trim_def isWhiteSpace_def
        createdEnv_def jsonEnv_def parseTable_def toArray_def)
  have d: "fst (executeDefaultAICall createdEnv plainExecution emptyWorld) =
             Inr \<lparr>message = ''CREATED: [1,2]'', toolCalls = None, userObjectives = [],
                  structuredData = None, created = None, updated = None, deleted = None\<rparr>"
    using o by (simp add: executeDefaultAICall_def Let_def createdEnv_def plainExecution_def)
  have s: "fst (executeStreamingAICall createdEnv (plainExecution\<lparr>config_onToken := True\<rparr>) emptyWorld) =
             Inr (processAIResponse createdEnv ''CREATED: [1,2]'' (Some []) None)"
    by (simp add: executeStreamingAICall_def Let_def createdEnv_def plainExecution_def
        processStreamingToolCalls_def)
  have t: "\<not> config_onToken plainExecution" by (simp add: plainExecution_def)
  show ?thesis
    using d s o c t
    by (simp add: fst_executeAICall rethrow_def processAIResponse_def)
qed

subsection \<open>The message history\<close>

lemma sorted_sort_key_orderIndex:
  "sorted (map MessageEmbedding_orderIndex (sort_key MessageEmbedding_orderIndex ms))"
  by simp

lemma validateRequest_Inr:
  "validateRequest cfg req = Inr req' \<Longrightarrow> req' = req \<and> request_message req \<noteq> []"
  by (auto simp: validateRequest_def assistantRequestSchema_def rethrow_def split: if_splits)

lemma systemContent_array:
  assumes "hasObjectives E thr \<longrightarrow> (\<exists>objs. Thread_userObjectives thr = Some (JArr objs))"
  shows "systemContent E cfg thr =
           Inr (case Thread_userObjectives thr of
                  Some (JArr (obj # objs)) \<Rightarrow>
                    systemMessage cfg @ [CHR 0x0A, CHR 0x0A] @ ''User Objectives:'' @ [CHR 0x0A] @
                      joinWith [CHR 0x0A] (map (\<lambda>obj. ''- '' @ toStringJS obj) (obj # objs))
                | _ \<Rightarrow> systemMessage cfg)"
proof (cases "hasObjectives E thr")
  case True
  with assms obtain objs where o: "Thread_userObjectives thr = Some (JArr objs)" by blast
  with True have "objs \<noteq> []"
    by (auto simp: hasObjectives_def lengthOf_def greaterThanZero_def)
  then obtain x xs where "objs = x # xs" by (cases objs) auto
  then show ?thesis using True o by (simp add: systemContent_def)
next
  case False
  have "(case Thread_userObjectives thr of
           Some (JArr (obj # objs)) \<Rightarrow>
             systemMessage cfg @ [CHR 0x0A, CHR 0x0A] @ ''User Objectives:'' @ [CHR 0x0A] @
               joinWith [CHR 0x0A] (map (\<lambda>obj. ''- '' @ toStringJS obj) (obj # objs))
         | _ \<Rightarrow> systemMessage cfg) = systemMessage cfg"
    using False
    by (auto simp: hasObjectives_def lengthOf_def greaterThanZero_def truthy_def
        split: option.splits json.splits list.splits)
  then show ?thesis using False by (simp add: systemContent_def)
qed

lemma systemContent_no_array:
  assumes "hasObjectives E thr" and "\<forall>objs. Thread_userObjectives thr \<noteq> Some (JArr objs)"
  shows "systemContent E cfg thr = Inl (JsError ''thread.userObjectives.map is not a function'')"
  using assms by (auto simp: systemContent_def split: option.splits json.splits)

text \<open>
  C7. For a validated request, once the similarity retriever has answered, the history
  that \<open>prepareProcess\<close> hands to the model invoker is: first the system message, whose
  content is the configured system message followed, when the thread has objectives, by
  the heading and one bullet per objective; then the retrieved fragments in ascending
  order of their order index, whatever the order in which the search ranked them; last the
  new user message. The invoker adds nothing to it before calling the provider. This is so
  for every thread whose objectives are the array that its interface declares, and for
  every other value on which the test for objectives fails. On the values that are left,
  those of positive length that are no array, the preparation throws before the retriever
  is asked and no history is handed over.
\<close>

theorem prepareProcess_history_order:
  assumes "validateRequest cfg req = Inr req'"
      and "findSimilarMessages E (Thread_id thr) (request_message req') (similarity cfg)
             (matchCount cfg) w = (Inr similar, w')"
  shows "((hasObjectives E thr \<longrightarrow> (\<exists>objs. Thread_userObjectives thr = Some (JArr objs))) \<longrightarrow>
          (\<exists>config.
             prepareProcess E cfg req' thr w = (Inr config, w') \<and>
             config_messages config =
               plainMessage System
                 (case Thread_userObjectives thr of
                    Some (JArr (obj # objs)) \<Rightarrow>
                      systemMessage cfg @ [CHR 0x0A, CHR 0x0A] @ ''User Objectives:'' @ [CHR 0x0A] @
                        joinWith [CHR 0x0A] (map (\<lambda>obj. ''- '' @ toStringJS obj) (obj # objs))
                  | _ \<Rightarrow> systemMessage cfg)
               # map historyMessage (sort_key MessageEmbedding_orderIndex similar)
               @ [plainMessage User (request_message req')] \<and>
             sorted (map MessageEmbedding_orderIndex (sort_key MessageEmbedding_orderIndex similar)) \<and>
             ensureSystemMessage (config_messages config) (config_systemMessage config) =
               config_messages config)) \<and>
         (hasObjectives E thr \<and> (\<forall>objs. Thread_userObjectives thr \<noteq> Some (JArr objs)) \<longrightarrow>
          prepareProcess E cfg req' thr w =
            (Inl (AppError ''Process Preparation Error: '' INTERNAL_ERROR), w))"
proof (rule conjI; rule impI)
  assume o: "hasObjectives E thr \<longrightarrow> (\<exists>objs. Thread_userObjectives thr = Some (JArr objs))"
  from assms(1) have ne: "request_message req' \<noteq> []"
    using validateRequest_Inr by blast
  show "\<exists>config.
             prepareProcess E cfg req' thr w = (Inr config, w') \<and>
             config_messages config =
               plainMessage System
                 (case Thread_userObjectives thr of
                    Some (JArr (obj # objs)) \<Rightarrow>
                      systemMessage cfg @ [CHR 0x0A, CHR 0x0A] @ ''User Objectives:'' @ [CHR 0x0A] @
                        joinWith [CHR 0x0A] (map (\<lambda>obj. ''- '' @ toStringJS obj) (obj # objs))
                  | _ \<Rightarrow> systemMessage cfg)
               # map historyMessage (sort_key MessageEmbedding_orderIndex similar)
               @ [plainMessage User (request_message req')] \<and>
             sorted (map MessageEmbedding_orderIndex (sort_key MessageEmbedding_orderIndex similar)) \<and>
             ensureSystemMessage (config_messages config) (config_systemMessage config) =
               config_messages config"
    using ne assms(2)
    by (simp add: prepareProcess_def systemContent_array [OF o] ensureSystemMessage_def
        plainMessage_def)
next
  assume "hasObjectives E thr \<and> (\<forall>objs. Thread_userObjectives thr \<noteq> Some (JArr objs))"
  then have "systemContent E cfg thr = Inl (JsError ''thread.userObjectives.map is not a function'')"
    using systemContent_no_array by blast
  then show "prepareProcess E cfg req' thr w =
            (Inl (AppError ''Process Preparation Error: '' INTERNAL_ERROR), w)"
    by (simp add: prepareProcess_def throwAppError_def)
qed

theorem prepareProcess_history_order_witness:
  "validateRequest helperConfig (request ''How are you?'' ''u1'' (Some ''t1'')) =
     Inr (request ''How are you?'' ''u1'' (Some ''t1'')) \<and>
   fst (findSimilarMessages rankedEnv ''t1'' ''How are you?'' 0.7 5 storedWorld) =
     Inr (map toMessageEmbedding
            [fragment ''t1'' 2 0 Assistant ''hi'', fragment ''t1'' 2 1 Assistant ''there'',
             fragment ''t1'' 1 0 User ''hello'']) \<and>
   Thread_userObjectives storedThread = Some (JArr [JStr ''learn HOL'', JStr ''write proofs'']) \<and>
   map_sum id config_messages
     (fst (prepareProcess rankedEnv helperConfig (request ''How are you?'' ''u1'' (Some ''t1''))
             storedThread storedWorld)) =
     Inr [plainMessage System
            (''You are a helpful test assistant.'' @ [CHR 0x0A, CHR 0x0A] @ ''User Objectives:'' @
             [CHR 0x0A] @ ''- learn HOL'' @ [CHR 0x0A] @ ''- write proofs''),
          plainMessage User ''hello'', plainMessage Assistant ''hi'',
          plainMessage Assistant ''there'', plainMessage User ''How are you?''] \<and>
   hasObjectives rankedEnv (storedThread\<lparr>Thread_userObjectives := Some (JStr ''learn HOL'')\<rparr>) \<and>
   prepareProcess rankedEnv helperConfig (request ''How are you?'' ''u1'' (Some ''t1''))
     (storedThread\<lparr>Thread_userObjectives := Some (JStr ''learn HOL'')\<rparr>) storedWorld =
     (Inl (AppError ''Process Preparation Error: '' INTERNAL_ERROR), storedWorld)"
proof -
  let ?req = "request ''How are you?'' ''u1'' (Some ''t1'')"
  let ?thr = "storedThread\<lparr>Thread_userObjectives := Some (JStr ''learn HOL'')\<rparr>"
  have v: "validateRequest helperConfig ?req = Inr ?req"
    by (simp add: validateRequest_def assistantRequestSchema_def rethrow_def request_def
        helperConfig_def)
  have m: "match_embeddings rankedEnv ''E:How are you?'' (7 / 10) 5 ''t1'' (embeddings storedWorld) =
             [fragment ''t1'' 2 0 Assistant ''hi'', fragment ''t1'' 2 1 Assistant ''there'',
              fragment ''t1'' 1 0 User ''hello'']"
    by (simp add: match_embeddings_def rankedEnv_def quietEnv_def storedWorld_def fragment_def)
  obtain w' where f: "findSimilarMessages rankedEnv ''t1'' ''How are you?'' 0.7 5 storedWorld =
      (Inr (map toMessageEmbedding
            [fragment ''t1'' 2 0 Assistant ''hi'', fragment ''t1'' 2 1 Assistant ''there'',
             fragment ''t1'' 1 0 User ''hello'']), w')"
    using m
    by (simp add: findSimilarMessages_def generateEmbeddings_def db_rpc_match_embeddings_def
        rethrow_def Let_def rankedEnv_def quietEnv_def)
  have r: "request_message ?req = ''How are you?''" "Thread_id storedThread = ''t1''"
    "Thread_id ?thr = ''t1''"
    "similarity helperConfig = 0.7" "matchCount helperConfig = 5"
    by (simp_all add: request_def storedThread_def helperConfig_def)
  have o: "Thread_userObjectives storedThread = Some (JArr [JStr ''learn HOL'', JStr ''write proofs''])"
    by (simp add: storedThread_def)
  from prepareProcess_history_order [of helperConfig ?req ?req rankedEnv storedThread storedWorld _ w']
    v f r o
  obtain config where c:
    "prepareProcess rankedEnv helperConfig ?req storedThread storedWorld = (Inr config, w')"
    "config_messages config =
       plainMessage System
         (case Thread_userObjectives storedThread of
            Some (JArr (obj # objs)) \<Rightarrow>
              systemMessage helperConfig @ [CHR 0x0A, CHR 0x0A] @ ''User Objectives:'' @ [CHR 0x0A] @
                joinWith [CHR 0x0A] (map (\<lambda>obj. ''- '' @ toStringJS obj) (obj # objs))
          | _ \<Rightarrow> systemMessage helperConfig)
       # map historyMessage (sort_key MessageEmbedding_orderIndex
           (map toMessageEmbedding
              [fragment ''t1'' 2 0 Assistant ''hi'', fragment ''t1'' 2 1 Assistant ''there'',
               fragment ''t1'' 1 0 User ''hello'']))
       @ [plainMessage User (request_message ?req)]"
    by auto
  have "config_messages config =
      [plainMessage System
            (''You are a helpful test assistant.'' @ [CHR 0x0A, CHR 0x0A] @ ''User Objectives:'' @
             [CHR 0x0A] @ ''- learn HOL'' @ [CHR 0x0A] @ ''- write proofs''),
          plainMessage User ''hello'', plainMessage Assistant ''hi'',
          plainMessage Assistant ''there'', plainMessage User ''How are you?'']"
    unfolding c(2)
    by (simp add: storedThread_def helperConfig_def toMessageEmbedding_def fragment_def
        historyMessage_def plainMessage_def request_def)
  then have first: "map_sum id config_messages
     (fst (prepareProcess rankedEnv helperConfig ?req storedThread storedWorld)) =
     Inr [plainMessage System
            (''You are a helpful test assistant.'' @ [CHR 0x0A, CHR 0x0A] @ ''User Objectives:'' @
             [CHR 0x0A] @ ''- learn HOL'' @ [CHR 0x0A] @ ''- write proofs''),
          plainMessage User ''hello'', plainMessage Assistant ''hi'',
          plainMessage Assistant ''there'', plainMessage User ''How are you?'']"
    using c(1) by simp
  have h: "hasObjectives rankedEnv ?thr"
    by (simp add: hasObjectives_def truthy_def lengthOf_def greaterThanZero_def)
  have n: "\<forall>objs. Thread_userObjectives ?thr \<noteq> Some (JArr objs)" by simp
  from prepareProcess_history_order [of helperConfig ?req ?req rankedEnv ?thr storedWorld _ w']
    v f r h n
  have second: "prepareProcess rankedEnv helperConfig ?req ?thr storedWorld =
     (Inl (AppError ''Process Preparation Error: '' INTERNAL_ERROR), storedWorld)"
    by simp
  show ?thesis using v f o first h second by simp
qed

subsection \<open>Best-effort update of the objectives\<close>

text \<open>
  C4. The reply states an objective and the store refuses the update of the thread.
  Without tools the turn fails with the error of the update; with a tool configured the
  same turn returns its response.
\<close>

theorem thread_objectives_update_failure:
  "map_option fst
     (thread objectiveEnv helperConfig
        (request ''I want to learn HOL'' ''u1'' (Some ''t1'')) storedWorld) =
     Some (Inl (AppError ''Update Thread Error: [object Object]'' UNAUTHORIZED)) \<and>
   map_option fst
     (thread objectiveEnv (helperConfig\<lparr>tools := Some [weatherTool]\<rparr>)
        (request ''I want to learn HOL'' ''u1'' (Some ''t1'')) storedWorld) =
     Some (Inr \<lparr>response_message = ''Noted. USER_OBJECTIVE: learn HOL'',
                response_threadId = ''t1'', response_created = [],
                response_updated = [], response_deleted = []\<rparr>)"
  by code_simp

text \<open>
  An update that the store serves fails as well, after the write: the objectives come back
  as the array they were sent as, and \<open>JSON.parse\<close> does not read the text of that array.
\<close>

lemma updateThread_reads_back_objectives:
  "map_prod id threads (updateThread jsonEnv ''t1'' None (Some [''learn HOL'']) storedWorld) =
     (Inl (AppError ''Update Thread Error: '' DATABASE_ERROR),
      [\<lparr>threads_id = ''t1'', threads_user_id = ''u1'', threads_title = Some ''Helper'',
        threads_user_objectives = JArr [JStr ''learn HOL'']\<rparr>])"
  by code_simp

subsection \<open>Resolving the thread\<close>

lemma processPlain_threadId:
  "processPlain E config thr w = (Inr resp, w') \<Longrightarrow> response_threadId resp = Thread_id thr"
  by (auto simp: processPlain_def split: prod.splits sum.splits option.splits if_splits)

lemma processToolCalls_threadId:
  "processToolCalls E config ts thr w = Some (Inr resp, w') \<Longrightarrow>
   response_threadId resp = Thread_id thr"
  by (auto simp: processToolCalls_def split: prod.splits sum.splits option.splits)

lemma processRequest_threadId:
  "processRequest E cfg config thr w = Some (Inr resp, w') \<Longrightarrow>
   response_threadId resp = Thread_id thr"
  by (auto simp: processRequest_def rethrow_def processPlain_threadId processToolCalls_threadId
      split: option.splits list.splits prod.splits sum.splits)

lemma thread_Inr:
  assumes "thread E cfg req w = Some (Inr resp, w')"
  shows "\<exists>thr w1 config w2 w3.
           validateRequest cfg req = Inr req \<and>
           getThread E cfg req w = (Inr thr, w1) \<and>
           prepareProcess E cfg req thr w1 = (Inr config, w2) \<and>
           processRequest E cfg config thr w2 = Some (Inr resp, w3) \<and>
           postProcess E req thr resp w3 = (Inr (), w')"
proof (cases "validateRequest cfg req")
  case (Inl e)
  then show ?thesis using assms by (simp add: thread_def rethrow_def)
next
  case (Inr req')
  then have eq: "req' = req" using validateRequest_Inr by blast
  show ?thesis
    using assms Inr unfolding eq
    by (auto simp: thread_def rethrow_def split: prod.splits sum.splits option.splits)
qed

lemma readThread_unauthorized:
  assumes "isUnauthorized (snd (fst (db_select_thread E tid w)))"
  shows "readThread E tid w =
           (Inl (AppError (''Get Thread Error: '' @ errorText (snd (fst (db_select_thread E tid w))))
                   UNAUTHORIZED),
            emit (Store (SelectThread tid)) w)"
proof -
  obtain row err w1 where s: "db_select_thread E tid w = ((row, err), w1)"
    by (metis surj_pair)
  have "w1 = emit (Store (SelectThread tid)) w"
    using s by (auto simp: db_select_thread_def Let_def split: option.splits)
  then show ?thesis
    using assms s by (simp add: readThread_def rethrow_def throwAppError_def)
qed

text \<open>
  C1, as the code has it. A thread identifier is supplied. When the store returns no row
  for it and the error it reports with that (if any) is not its unauthorized signal
  \<open>PGRST116\<close>, and the store then serves the insert under an identifier that no stored
  thread has, \<open>getThread\<close> creates a thread owned by the requesting user and titled from
  the configuration; every response that \<open>Assistant.thread\<close> returns for the request
  carries the identifier the store generated for the new thread, which differs from the
  supplied one whenever the store has generated another identifier than that one. The
  objectives of the new thread are what the host's \<open>JSON.parse\<close> reads from the text
  \<open>[]\<close> stored with it. When the store answers the lookup with \<open>PGRST116\<close>,
  \<open>readThread\<close> raises \<open>UNAUTHORIZED\<close> and the turn of a valid request fails with that
  error: the lookup is its only effect and no thread is created.
\<close>

theorem getThread_creates_unresolved_thread:
  assumes "request_threadId req = Some tid" and "tid \<noteq> []"
  shows "(db_select_thread E tid w = ((None, err), w1) \<and> \<not> isUnauthorized err \<and>
          db_error_at E (length (trace w1))
            (InsertThread (request_userId req) (if title cfg = [] then None else Some (title cfg))) = None \<and>
          gen_random_uuid E (length (trace w1)) \<notin> set (map threads_id (threads w1)) \<and>
          JSON_parse E ''[]'' = Some objectives
          \<longrightarrow> (\<exists>w2. getThread E cfg req w =
                     (Inr \<lparr>Thread_id = gen_random_uuid E (length (trace w1)),
                           Thread_userId = request_userId req,
                           Thread_title = (if title cfg = [] then None else Some (title cfg)),
                           Thread_userObjectives = Some objectives\<rparr>, w2) \<and>
                   threads w2 = threads w1 @
                     [\<lparr>threads_id = gen_random_uuid E (length (trace w1)),
                       threads_user_id = request_userId req,
                       threads_title = (if title cfg = [] then None else Some (title cfg)),
                       threads_user_objectives = JStr ''[]''\<rparr>] \<and>
                   (\<forall>resp w'. thread E cfg req w = Some (Inr resp, w') \<longrightarrow>
                      response_threadId resp = gen_random_uuid E (length (trace w1)) \<and>
                      (gen_random_uuid E (length (trace w1)) \<noteq> tid \<longrightarrow>
                         response_threadId resp \<noteq> tid)))) \<and>
         (validateRequest cfg req = Inr req \<and>
          isUnauthorized (snd (fst (db_select_thread E tid w)))
          \<longrightarrow> thread E cfg req w =
                Some (Inl (AppError (''Get Thread Error: '' @
                                       errorText (snd (fst (db_select_thread E tid w))))
                             UNAUTHORIZED),
                      emit (Store (SelectThread tid)) w) \<and>
              threads (emit (Store (SelectThread tid)) w) = threads w)"
proof (rule conjI; rule impI)
  assume a: "db_select_thread E tid w = ((None, err), w1) \<and> \<not> isUnauthorized err \<and>
          db_error_at E (length (trace w1))
            (InsertThread (request_userId req) (if title cfg = [] then None else Some (title cfg))) = None \<and>
          gen_random_uuid E (length (trace w1)) \<notin> set (map threads_id (threads w1)) \<and>
          JSON_parse E ''[]'' = Some objectives"
  obtain c cs where t: "tid = c # cs" using assms(2) by (cases tid) auto
  let ?thr = "\<lparr>Thread_id = gen_random_uuid E (length (trace w1)),
                 Thread_userId = request_userId req,
                 Thread_title = (if title cfg = [] then None else Some (title cfg)),
                 Thread_userObjectives = Some objectives\<rparr>"
  have r: "readThread E tid w = (Inr None, w1)"
    using a by (simp add: readThread_def rethrow_def)
  have mem: "gen_random_uuid E (length (trace w1)) \<notin> set (map threads_id (threads w1))"
    using a by simp
  have fresh: "\<not> list_ex (\<lambda>r. threads_id r = gen_random_uuid E (length (trace w1))) (threads w1)"
  proof
    assume "list_ex (\<lambda>r. threads_id r = gen_random_uuid E (length (trace w1))) (threads w1)"
    then obtain r where "r \<in> set (threads w1)" "threads_id r = gen_random_uuid E (length (trace w1))"
      by (auto simp: list_ex_iff)
    then have "gen_random_uuid E (length (trace w1)) \<in> set (map threads_id (threads w1))"
      by force
    with mem show False by simp
  qed
  obtain w2 where c: "createThread E (request_userId req) (title cfg) w1 = (Inr ?thr, w2)"
    and th: "threads w2 = threads w1 @
             [\<lparr>threads_id = gen_random_uuid E (length (trace w1)),
               threads_user_id = request_userId req,
               threads_title = (if title cfg = [] then None else Some (title cfg)),
               threads_user_objectives = JStr ''[]''\<rparr>]"
    using a fresh
    by (simp add: createThread_def db_insert_thread_def Let_def isUnauthorized_def rethrow_def
        toThread_def truthy_def)
  have g: "getThread E cfg req w = (Inr ?thr, w2)"
    using assms(1) r c unfolding t by (simp add: getThread_def rethrow_def)
  have "\<forall>resp w'. thread E cfg req w = Some (Inr resp, w') \<longrightarrow>
              response_threadId resp = gen_random_uuid E (length (trace w1)) \<and>
              (gen_random_uuid E (length (trace w1)) \<noteq> tid \<longrightarrow> response_threadId resp \<noteq> tid)"
  proof (intro allI impI)
    fix resp w'
    assume "thread E cfg req w = Some (Inr resp, w')"
    from thread_Inr [OF this] g obtain config w2' w3 where
      "processRequest E cfg config ?thr w2' = Some (Inr resp, w3)"
      by auto
    then have "response_threadId resp = gen_random_uuid E (length (trace w1))"
      using processRequest_threadId by fastforce
    then show "response_threadId resp = gen_random_uuid E (length (trace w1)) \<and>
               (gen_random_uuid E (length (trace w1)) \<noteq> tid \<longrightarrow> response_threadId resp \<noteq> tid)"
      by simp
  qed
  then show "\<exists>w2. getThread E cfg req w = (Inr ?thr, w2) \<and>
                   threads w2 = threads w1 @
                     [\<lparr>threads_id = gen_random_uuid E (length (trace w1)),
                       threads_user_id = request_userId req,
                       threads_title = (if title cfg = [] then None else Some (title cfg)),
                       threads_user_objectives = JStr ''[]''\<rparr>] \<and>
                   (\<forall>resp w'. thread E cfg req w = Some (Inr resp, w') \<longrightarrow>
                      response_threadId resp = gen_random_uuid E (length (trace w1)) \<and>
                      (gen_random_uuid E (length (trace w1)) \<noteq> tid \<longrightarrow>
                         response_threadId resp \<noteq> tid))"
    using g th by blast
next
  assume b: "validateRequest cfg req = Inr req \<and>
          isUnauthorized (snd (fst (db_select_thread E tid w)))"
  obtain c cs where t: "tid = c # cs" using assms(2) by (cases tid) auto
  have r: "readThread E (c # cs) w =
           (Inl (AppError (''Get Thread Error: '' @ errorText (snd (fst (db_select_thread E (c # cs) w))))
                   UNAUTHORIZED),
            emit (Store (SelectThread (c # cs))) w)"
    using b readThread_unauthorized [of E tid w] unfolding t by simp
  have g: "getThread E cfg req w =
           (Inl (AppError (''Get Thread Error: '' @ errorText (snd (fst (db_select_thread E (c # cs) w))))
                   UNAUTHORIZED),
            emit (Store (SelectThread (c # cs))) w)"
    using assms(1) r unfolding t by (simp add: getThread_def rethrow_def)
  show "thread E cfg req w =
                Some (Inl (AppError (''Get Thread Error: '' @
                                       errorText (snd (fst (db_select_thread E tid w))))
                             UNAUTHORIZED),
                      emit (Store (SelectThread tid)) w) \<and>
              threads (emit (Store (SelectThread tid)) w) = threads w"
    using b g unfolding t by (simp add: thread_def rethrow_def)
qed

theorem getThread_creates_unresolved_thread_witness:
  "request_threadId (request ''Hello'' ''u1'' (Some ''<nonexistent>'')) = Some ''<nonexistent>'' \<and>
   ''<nonexistent>'' \<noteq> [] \<and>
   fst (db_select_thread (replyEnv\<lparr>db_error_at := rejectLookups\<rparr>) ''<nonexistent>'' storedWorld) =
     (None, Some invalidUuid) \<and>
   \<not> isUnauthorized (Some invalidUuid) \<and>
   gen_random_uuid (replyEnv\<lparr>db_error_at := rejectLookups\<rparr>) 1 \<notin>
     set (map threads_id (threads storedWorld)) \<and>
   gen_random_uuid (replyEnv\<lparr>db_error_at := rejectLookups\<rparr>) 1 \<noteq> ''<nonexistent>'' \<and>
   JSON_parse (replyEnv\<lparr>db_error_at := rejectLookups\<rparr>) ''[]'' = Some (JArr []) \<and>
   map_option fst
     (thread (replyEnv\<lparr>db_error_at := rejectLookups\<rparr>) helperConfig
        (request ''Hello'' ''u1'' (Some ''<nonexistent>'')) storedWorld) =
     Some (Inr \<lparr>response_message = ''Hello there'', response_threadId = ''thread-new'',
                response_created = [], response_updated = [], response_deleted = []\<rparr>) \<and>
   response_threadId \<lparr>response_message = ''Hello there'', response_threadId = ''thread-new'',
                response_created = [], response_updated = [], response_deleted = []\<rparr> =
     gen_random_uuid (replyEnv\<lparr>db_error_at := rejectLookups\<rparr>) 1 \<and>
   response_threadId \<lparr>response_message = ''Hello there'', response_threadId = ''thread-new'',
                response_created = [], response_updated = [], response_deleted = []\<rparr> \<noteq>
     ''<nonexistent>'' \<and>
   validateRequest helperConfig (request ''Hello'' ''u1'' (Some ''00000000-0000-4000-8000-000000000404'')) =
     Inr (request ''Hello'' ''u1'' (Some ''00000000-0000-4000-8000-000000000404'')) \<and>
   isUnauthorized
     (snd (fst (db_select_thread postgrestEnv ''00000000-0000-4000-8000-000000000404'' storedWorld))) \<and>
   thread postgrestEnv helperConfig
     (request ''Hello'' ''u1'' (Some ''00000000-0000-4000-8000-000000000404'')) storedWorld =
     Some (Inl (AppError ''Get Thread Error: [object Object]'' UNAUTHORIZED),
           emit (Store (SelectThread ''00000000-0000-4000-8000-000000000404'')) storedWorld)"
proof -
  let ?E = "replyEnv\<lparr>db_error_at := rejectLookups\<rparr>"
  let ?req = "request ''Hello'' ''u1'' (Some ''<nonexistent>'')"
  let ?resp = "\<lparr>response_message = ''Hello there'', response_threadId = ''thread-new'',
                response_created = [], response_updated = [], response_deleted = []\<rparr>"
  let ?uuid = "''00000000-0000-4000-8000-000000000404''"
  let ?req2 = "request ''Hello'' ''u1'' (Some ?uuid)"
  have a: "request_threadId ?req = Some ''<nonexistent>''" by (simp add: request_def)
  obtain w1 where s: "db_select_thread ?E ''<nonexistent>'' storedWorld = ((None, Some invalidUuid), w1)"
    and l: "length (trace w1) = 1" and tw: "threads w1 = threads storedWorld"
    by (simp add: db_select_thread_def Let_def rejectLookups_def storedWorld_def)
  have u: "\<not> isUnauthorized (Some invalidUuid)"
    by (simp add: isUnauthorized_def invalidUuid_def)
  have i: "db_error_at ?E (length (trace w1))
             (InsertThread (request_userId ?req)
                (if title helperConfig = [] then None else Some (title helperConfig))) = None"
    by (simp add: rejectLookups_def)
  have f: "gen_random_uuid ?E 1 \<notin> set (map threads_id (threads storedWorld))"
    "gen_random_uuid ?E 1 \<noteq> ''<nonexistent>''"
    by (simp_all add: replyEnv_def jsonEnv_def quietEnv_def storedWorld_def)
  have j: "JSON_parse ?E ''[]'' = Some (JArr [])"
    by (simp add: replyEnv_def jsonEnv_def parseTable_def)
  have t: "map_option fst (thread ?E helperConfig ?req storedWorld) = Some (Inr ?resp)"
    by code_simp
  then obtain w' where t': "thread ?E helperConfig ?req storedWorld = Some (Inr ?resp, w')"
    by (cases "thread ?E helperConfig ?req storedWorld") auto
  have f': "gen_random_uuid ?E (length (trace w1)) \<notin> set (map threads_id (threads w1))"
    "gen_random_uuid ?E (length (trace w1)) \<noteq> ''<nonexistent>''"
    using f l tw by simp_all
  from getThread_creates_unresolved_thread
         [OF a, of ?E storedWorld "Some invalidUuid" w1 helperConfig "JArr []"] s u i f' j t'
  have x: "response_threadId ?resp = gen_random_uuid ?E (length (trace w1)) \<and>
           response_threadId ?resp \<noteq> ''<nonexistent>''"
    by blast
  have a2: "request_threadId ?req2 = Some ?uuid" by (simp add: request_def)
  have v: "validateRequest helperConfig ?req2 = Inr ?req2"
    by (simp add: validateRequest_def assistantRequestSchema_def rethrow_def request_def
        helperConfig_def)
  have z: "isUnauthorized (snd (fst (db_select_thread postgrestEnv ?uuid storedWorld)))"
    by (simp add: db_select_thread_def Let_def single_def postgrestEnv_def replyEnv_def jsonEnv_def
        quietEnv_def storedWorld_def isUnauthorized_def pgrst116_def)
  have e: "errorText (snd (fst (db_select_thread postgrestEnv ?uuid storedWorld))) = ''[object Object]''"
    by (simp add: db_select_thread_def Let_def single_def postgrestEnv_def replyEnv_def jsonEnv_def
        quietEnv_def storedWorld_def errorText_def pgrst116_def)
  from getThread_creates_unresolved_thread [OF a2, of postgrestEnv storedWorld _ _ helperConfig] v z
  have y: "thread postgrestEnv helperConfig ?req2 storedWorld =
             Some (Inl (AppError (''Get Thread Error: '' @
                          errorText (snd (fst (db_select_thread postgrestEnv ?uuid storedWorld))))
                        UNAUTHORIZED),
                   emit (Store (SelectThread ?uuid)) storedWorld)"
    by blast
  show ?thesis using a s u f j t x v z y l unfolding e by simp
qed

text \<open>
  The claim as the specification states it fails where the store reports the missing row
  with \<open>PGRST116\<close>, the code \<open>.single()\<close> gives when it finds no row: the guard of
  \<open>readThread\<close> takes it for an unauthorized request and the turn fails with
  \<open>UNAUTHORIZED\<close> before any thread is created.
\<close>

theorem thread_unresolved_unauthorized_counterexample:
  "map_option fst
     (thread postgrestEnv helperConfig
        (request ''Hello'' ''u1'' (Some ''00000000-0000-4000-8000-000000000404'')) storedWorld) =
     Some (Inl (AppError ''Get Thread Error: [object Object]'' UNAUTHORIZED)) \<and>
   map_option (threads \<circ> snd)
     (thread postgrestEnv helperConfig
        (request ''Hello'' ''u1'' (Some ''00000000-0000-4000-8000-000000000404'')) storedWorld) =
     Some (threads storedWorld) \<and>
   map_option (trace \<circ> snd)
     (thread postgrestEnv helperConfig
        (request ''Hello'' ''u1'' (Some ''00000000-0000-4000-8000-000000000404'')) storedWorld) =
     Some [Store (SelectThread ''00000000-0000-4000-8000-000000000404'')]"
  by code_simp

subsection \<open>The tool-call resolution loop\<close>

lemma chatCalls_append [simp]: "chatCalls (xs @ ys) = chatCalls xs + chatCalls ys"
  by (induction xs rule: chatCalls.induct) simp_all

lemma toolRuns_append [simp]: "toolRuns (xs @ ys) = toolRuns xs + toolRuns ys"
  by (induction xs rule: toolRuns.induct) simp_all

lemma consumeStream_counts:
  "chatCalls (trace (snd (consumeStream ds acc w))) = chatCalls (trace w) \<and>
   toolRuns (trace (snd (consumeStream ds acc w))) = toolRuns (trace w)"
proof (induction ds arbitrary: acc w)
  case Nil
  then show ?case by simp
next
  case (Cons d ds)
  obtain fullContent calls where a: "acc = (fullContent, calls)" by (cases acc)
  show ?case
    unfolding a using Cons.IH
    by (simp split: option.splits list.splits)
qed

lemma executeDefaultAICall_counts:
  "chatCalls (trace (snd (executeDefaultAICall E cfg w))) = Suc (chatCalls (trace w)) \<and>
   toolRuns (trace (snd (executeDefaultAICall E cfg w))) = toolRuns (trace w)"
  by (simp add: executeDefaultAICall_def Let_def case_prod_beta split: sum.splits list.splits)

lemma executeStreamingAICall_counts:
  "chatCalls (trace (snd (executeStreamingAICall E cfg w))) = Suc (chatCalls (trace w)) \<and>
   toolRuns (trace (snd (executeStreamingAICall E cfg w))) = toolRuns (trace w)"
proof (cases "config_responseFormat cfg")
  case (Some schema)
  then show ?thesis
    using executeDefaultAICall_counts
      [of E "cfg\<lparr>config_onToken := False\<rparr>"
          "emit (Console ''Strukturierte Antworten sind nicht mit Streaming kompatibel. Verwende executeDefaultAICall.'') w"]
    by (simp add: executeStreamingAICall_def)
next
  case None
  show ?thesis
  proof (cases "chat_stream E (chatCalls (trace w))
                  (ensureSystemMessage (config_messages cfg) (config_systemMessage cfg))")
    case (Inl e)
    then show ?thesis using None by (simp add: executeStreamingAICall_def Let_def)
  next
    case (Inr deltas)
    then show ?thesis
      using None
        consumeStream_counts [of deltas "([], [])"
          "emit (ChatCreate True (ensureSystemMessage (config_messages cfg) (config_systemMessage cfg))
                   (toolNames (config_tools cfg))) w"]
      by (auto simp: executeStreamingAICall_def Let_def split: prod.splits)
  qed
qed

lemma executeAICall_counts:
  "chatCalls (trace (snd (executeAICall E cfg w))) = Suc (chatCalls (trace w)) \<and>
   toolRuns (trace (snd (executeAICall E cfg w))) = toolRuns (trace w)"
  using executeDefaultAICall_counts [of E cfg w] executeStreamingAICall_counts [of E cfg w]
  by (auto simp: executeAICall_def split: prod.splits)

lemma runToolCall_counts:
  "chatCalls (trace (snd (runToolCall E tc ts w))) = chatCalls (trace w) \<and>
   toolRuns (trace (snd (runToolCall E tc ts w))) =
     toolRuns (trace w) + (if executable E ts tc then 1 else 0)"
  by (simp add: runToolCall_def executable_def getTool_def parseToolArguments_def
      validateArgs_def execute_def split: option.splits)

lemma processToolCallWithEntities_counts:
  "chatCalls (trace (snd (processToolCallWithEntities E ts tc w))) = chatCalls (trace w) \<and>
   toolRuns (trace (snd (processToolCallWithEntities E ts tc w))) =
     toolRuns (trace w) + (if executable E ts tc then 1 else 0)"
  using runToolCall_counts [of E tc ts w]
  by (auto simp: processToolCallWithEntities_def handleToolCall_def split: prod.splits sum.splits)

lemma updateThread_counts:
  "chatCalls (trace (snd (updateThread E tid ttl objs w))) = chatCalls (trace w) \<and>
   toolRuns (trace (snd (updateThread E tid ttl objs w))) = toolRuns (trace w)"
  by (auto simp: updateThread_def db_update_thread_def Let_def split: option.splits prod.splits)

lemma updateObjectivesBestEffort_counts:
  "chatCalls (trace (updateObjectivesBestEffort E thr r w)) = chatCalls (trace w) \<and>
   toolRuns (trace (updateObjectivesBestEffort E thr r w)) = toolRuns (trace w)"
  using updateThread_counts [of E "Thread_id thr" None "Some (userObjectives r)" w]
  by (auto simp: updateObjectivesBestEffort_def split: prod.splits sum.splits)

lemma toolLoop_done:
  "toolCalls r = None \<or> toolCalls r = Some [] \<Longrightarrow>
   toolLoop E config ts r ms ch w = Some (Inr (r, ch), w)"
  by (subst toolLoop.simps) auto

lemma toolLoop_one_round:
  assumes "toolCalls r1 = Some [tc]"
      and "processToolCallWithEntities E ts tc w1 = (Inr (response, chg), w2)"
      and "executeAICall E (config\<lparr>config_messages := ms @ [response]\<rparr>) w2 = (Inr r2, w3)"
      and "toolCalls r2 = None \<or> toolCalls r2 = Some []"
  shows "toolLoop E config ts r1 ms ch w1 = Some (Inr (r2, addChanges ch [chg]), w3)"
  using assms toolLoop_done [OF assms(4)]
  by (subst toolLoop.simps) simp

lemma processToolCallWithEntities_Inr:
  "\<exists>response chg w2. processToolCallWithEntities E ts tc w = (Inr (response, chg), w2)"
  by (auto simp: processToolCallWithEntities_def handleToolCall_def split: prod.splits sum.splits)

lemma runToolCall_unexecutable:
  "\<not> executable E ts tc \<Longrightarrow> \<exists>e. runToolCall E tc ts w = (Inl e, w)"
  by (auto simp: runToolCall_def executable_def getTool_def parseToolArguments_def
      validateArgs_def split: option.splits)

lemma processToolCallWithEntities_unexecutable:
  assumes "\<not> executable E ts tc"
      and "processToolCallWithEntities E ts tc w = (Inr (response, chg), w')"
  shows "\<exists>m. response =
           toolMessage (ToolCall_id tc) (JSON_stringify E (JObj [(''error'', JStr m)]))"
proof -
  from runToolCall_unexecutable [OF assms(1)] obtain e where "runToolCall E tc ts w = (Inl e, w)"
    by blast
  then show ?thesis
    using assms(2) by (auto simp: processToolCallWithEntities_def handleToolCall_def)
qed

text \<open>
  C8, as the code has it. The first invocation of the model returns exactly one tool call;
  the second invocation, made on the history extended by the assistant message and the
  tool message, returns no tool call. Then the loop terminates: it has invoked the model
  exactly twice and its response carries the text of the second invocation. It has
  executed the tool exactly once when the call can be executed (it names a registered tool
  and its arguments parse and pass the schema of that tool); otherwise it has executed no
  tool, and the call was answered with a tool message that carries an error.
\<close>

theorem processToolCalls_single_round:
  assumes "executeAICall E config w = (Inr r1, w1)" and "toolCalls r1 = Some [tc]"
      and "processToolCallWithEntities E ts tc w1 = (Inr (response, chg), w2)"
      and "executeAICall E
             (config\<lparr>config_messages := config_messages config @ [assistantMessage r1] @ [response]\<rparr>)
             w2 = (Inr r2, w3)"
      and "toolCalls r2 = None \<or> toolCalls r2 = Some []"
  shows "\<exists>w4. processToolCalls E config ts thr w =
                 Some (Inr \<lparr>response_message = message r2, response_threadId = Thread_id thr,
                            response_created = changes_created chg,
                            response_updated = changes_updated chg,
                            response_deleted = changes_deleted chg\<rparr>, w4) \<and>
               chatCalls (trace w4) = chatCalls (trace w) + 2 \<and>
               toolRuns (trace w4) = toolRuns (trace w) + (if executable E ts tc then 1 else 0) \<and>
               (\<not> executable E ts tc \<longrightarrow>
                  (\<exists>m. response =
                     toolMessage (ToolCall_id tc) (JSON_stringify E (JObj [(''error'', JStr m)]))))"
proof -
  let ?none = "\<lparr>changes_created = [], changes_updated = [], changes_deleted = []\<rparr>"
  have loop: "toolLoop E config ts r1 (config_messages config @ [assistantMessage r1]) ?none w1 =
                Some (Inr (r2, addChanges ?none [chg]), w3)"
    using assms(2-5) by (intro toolLoop_one_round) simp_all
  have c1: "chatCalls (trace w1) = Suc (chatCalls (trace w))" "toolRuns (trace w1) = toolRuns (trace w)"
    using executeAICall_counts [of E config w] assms(1) by simp_all
  have c2: "chatCalls (trace w2) = chatCalls (trace w1)"
    "toolRuns (trace w2) = toolRuns (trace w1) + (if executable E ts tc then 1 else 0)"
    using processToolCallWithEntities_counts [of E ts tc w1] assms(3) by simp_all
  have c3: "chatCalls (trace w3) = Suc (chatCalls (trace w2))" "toolRuns (trace w3) = toolRuns (trace w2)"
    using executeAICall_counts
      [of E "config\<lparr>config_messages := config_messages config @ [assistantMessage r1] @ [response]\<rparr>" w2]
      assms(4) by simp_all
  have c4: "chatCalls (trace (updateObjectivesBestEffort E thr r2 w3)) = chatCalls (trace w3)"
    "toolRuns (trace (updateObjectivesBestEffort E thr r2 w3)) = toolRuns (trace w3)"
    using updateObjectivesBestEffort_counts [of E thr r2 w3] by simp_all
  have u: "\<not> executable E ts tc \<longrightarrow>
             (\<exists>m. response =
                toolMessage (ToolCall_id tc) (JSON_stringify E (JObj [(''error'', JStr m)])))"
    using processToolCallWithEntities_unexecutable [OF _ assms(3)] by blast
  have "processToolCalls E config ts thr w =
          Some (Inr \<lparr>response_message = message r2, response_threadId = Thread_id thr,
                     response_created = changes_created chg,
                     response_updated = changes_updated chg,
                     response_deleted = changes_deleted chg\<rparr>,
                updateObjectivesBestEffort E thr r2 w3)"
    using assms(1) loop by (simp add: processToolCalls_def addChanges_def)
  then show ?thesis using c1 c2 c3 c4 u by simp
qed

theorem processToolCalls_single_round_witness:
  "map_sum id toolCalls (fst (executeAICall (weatherEnv ''{}'') weatherExecution emptyWorld)) =
     Inr (Some [toolCall ''call_1'' ''getWeather'' ''{}'']) \<and>
   executable (weatherEnv ''{}'') [weatherTool] (toolCall ''call_1'' ''getWeather'' ''{}'') \<and>
   map_option (\<lambda>(r, w). (map_sum id response_message r, chatCalls (trace w), toolRuns (trace w)))
     (processToolCalls (weatherEnv ''{}'') weatherExecution [weatherTool] storedThread emptyWorld) =
     Some (Inr ''It is sunny, 22 degrees.'', 2, 1)"
proof -
  let ?E = "weatherEnv ''{}''"
  let ?tc = "toolCall ''call_1'' ''getWeather'' ''{}''"
  let ?r1 = "\<lparr>message = [], toolCalls = Some [?tc], userObjectives = [], structuredData = None,
              created = None, updated = None, deleted = None\<rparr>"
  let ?resp = "toolMessage ''call_1'' (render (JObj [(''temperature'', JNum 22), (''condition'', JStr ''sunny'')]))"
  let ?chg = "\<lparr>changes_created = [], changes_updated = [], changes_deleted = []\<rparr>"
  let ?r2 = "\<lparr>message = ''It is sunny, 22 degrees.'', toolCalls = None, userObjectives = [],
              structuredData = None, created = None, updated = None, deleted = None\<rparr>"
  let ?w1 = "snd (executeAICall ?E weatherExecution emptyWorld)"
  let ?w2 = "snd (processToolCallWithEntities ?E [weatherTool] ?tc ?w1)"
  let ?cfg2 = "weatherExecution\<lparr>config_messages :=
                 config_messages weatherExecution @ [assistantMessage ?r1] @ [?resp]\<rparr>"
  let ?w3 = "snd (executeAICall ?E ?cfg2 ?w2)"
  have x: "executable ?E [weatherTool] ?tc" by code_simp
  have f1: "fst (executeAICall ?E weatherExecution emptyWorld) = Inr ?r1" by code_simp
  have f2: "fst (processToolCallWithEntities ?E [weatherTool] ?tc ?w1) = Inr (?resp, ?chg)"
    by code_simp
  have f3: "fst (executeAICall ?E ?cfg2 ?w2) = Inr ?r2" by code_simp
  have h1: "executeAICall ?E weatherExecution emptyWorld = (Inr ?r1, ?w1)"
    using f1 by (simp add: prod_eq_iff)
  have h2: "processToolCallWithEntities ?E [weatherTool] ?tc ?w1 = (Inr (?resp, ?chg), ?w2)"
    using f2 by (simp add: prod_eq_iff)
  have h3: "executeAICall ?E ?cfg2 ?w2 = (Inr ?r2, ?w3)"
    using f3 by (simp add: prod_eq_iff)
  have t1: "toolCalls ?r1 = Some [?tc]" by simp
  have t2: "toolCalls ?r2 = None \<or> toolCalls ?r2 = Some []" by simp
  from processToolCalls_single_round [OF h1 t1 h2 h3 t2, of storedThread]
  obtain w4 where
    "processToolCalls ?E weatherExecution [weatherTool] storedThread emptyWorld =
       Some (Inr \<lparr>response_message = message ?r2, response_threadId = Thread_id storedThread,
                  response_created = changes_created ?chg, response_updated = changes_updated ?chg,
                  response_deleted = changes_deleted ?chg\<rparr>, w4)"
    "chatCalls (trace w4) = chatCalls (trace emptyWorld) + 2"
    "toolRuns (trace w4) =
       toolRuns (trace emptyWorld) + (if executable ?E [weatherTool] ?tc then 1 else 0)"
    by blast
  then show ?thesis using x f1 by (simp add: emptyWorld_def)
qed

text \<open>
  The claim as the specification states it fails when the call cannot be executed. Here
  the provider asks once for a tool that is not registered and then answers in plain
  text: the model is invoked twice and the second text is returned, but no tool has run.
\<close>

theorem processToolCalls_unregistered_tool_counterexample:
  "map_sum id toolCalls
     (fst (executeAICall (weatherEnv ''{}'') (weatherExecution\<lparr>config_tools := Some [brokenTool]\<rparr>)
             emptyWorld)) =
     Inr (Some [toolCall ''call_1'' ''getWeather'' ''{}'']) \<and>
   map_option (map_sum id response_message \<circ> fst)
     (processToolCalls (weatherEnv ''{}'') (weatherExecution\<lparr>config_tools := Some [brokenTool]\<rparr>)
        [brokenTool] storedThread emptyWorld) =
     Some (Inr ''It is sunny, 22 degrees.'') \<and>
   map_option (chatCalls \<circ> trace \<circ> snd)
     (processToolCalls (weatherEnv ''{}'') (weatherExecution\<lparr>config_tools := Some [brokenTool]\<rparr>)
        [brokenTool] storedThread emptyWorld) = Some 2 \<and>
   map_option (toolRuns \<circ> trace \<circ> snd)
     (processToolCalls (weatherEnv ''{}'') (weatherExecution\<lparr>config_tools := Some [brokenTool]\<rparr>)
        [brokenTool] storedThread emptyWorld) = Some 0"
  by code_simp

subsection \<open>What a turn persists\<close>

lemma promise_all_Cons_Inr:
  "promise_all (t # ts) w = (Inr vs, w') \<Longrightarrow>
   \<exists>v w1 vs'. t w = (Inr v, w1) \<and> promise_all ts w1 = (Inr vs', w') \<and> vs = v # vs'"
  by (auto split: prod.splits sum.splits)

lemma createMessage_Inr:
  assumes "createMessage E tid idx ci rl txt emb w = (Inr m, w')"
  shows "embeddings w' = embeddings w @
           [\<lparr>embeddings_thread_id = tid, embeddings_order_index = idx,
             embeddings_chunk_index = ci, embeddings_role = rl,
             embeddings_content = txt, embeddings_embedding = emb\<rparr>]"
  using assms
  by (auto simp: createMessage_def db_insert_message_def Let_def rethrow_def isUnauthorized_def
      throwAppError_def split: option.splits if_splits)

lemma generateEmbeddings_Inr:
  "generateEmbeddings E s w = (Inr emb, w') \<Longrightarrow>
   embedQuery E s = Inr emb \<and> embeddings w' = embeddings w"
  by (auto simp: generateEmbeddings_def rethrow_def split: sum.splits)

lemma generateEmbeddings_embeddings:
  "embeddings (snd (generateEmbeddings E s w)) = embeddings w"
  by (simp add: generateEmbeddings_def)

lemma embedSnippets_Inr:
  "promise_all (map (embedSnippet E) snippets) w = (Inr chunks, w') \<Longrightarrow>
   chunks = map (\<lambda>s. \<lparr>chunk_content = s, chunk_embedding = embeddingText E s\<rparr>) snippets \<and>
   embeddings w' = embeddings w"
proof (induction snippets arbitrary: w chunks)
  case Nil
  then show ?case by simp
next
  case (Cons s snippets)
  from Cons.prems
  have "promise_all (embedSnippet E s # map (embedSnippet E) snippets) w = (Inr chunks, w')"
    by simp
  from promise_all_Cons_Inr [OF this]
  obtain v w1 vs' where
    a: "embedSnippet E s w = (Inr v, w1)"
    and b: "promise_all (map (embedSnippet E) snippets) w1 = (Inr vs', w')"
    and c: "chunks = v # vs'"
    by blast
  from a have "v = \<lparr>chunk_content = s, chunk_embedding = embeddingText E s\<rparr> \<and>
               embeddings w1 = embeddings w"
    by (auto simp: embedSnippet_def embeddingText_def dest: generateEmbeddings_Inr
        split: prod.splits sum.splits)
  then show ?case using Cons.IH [OF b] c by simp
qed

lemma generateEmbeddingChunks_Inr:
  assumes "generateEmbeddingChunks E text w = (Inr chunks, w')"
  shows "\<exists>snippets. splitText E text = Inr snippets \<and>
           chunks = map (\<lambda>s. \<lparr>chunk_content = s, chunk_embedding = embeddingText E s\<rparr>) snippets \<and>
           embeddings w' = embeddings w"
proof -
  from assms obtain snippets w1 where
    s: "splitTextIntoChunks E text w = (Inr snippets, w1)"
    and p: "promise_all (map (embedSnippet E) snippets) w1 = (Inr chunks, w')"
    by (auto simp: generateEmbeddingChunks_def rethrow_def split: prod.splits sum.splits)
  from s have "splitText E text = Inr snippets \<and> embeddings w1 = embeddings w"
    by (auto simp: splitTextIntoChunks_def rethrow_def split: sum.splits)
  then show ?thesis using embedSnippets_Inr [OF p] by simp
qed

lemma createMessages_Inr:
  "promise_all
     (map (\<lambda>(i, chunk). createMessage E tid idx (int i) rl (chunk_content chunk) (chunk_embedding chunk))
        (zip [k..<k + length cs] cs)) w = (Inr ms, w') \<Longrightarrow>
   embeddings w' = embeddings w @
     map (\<lambda>(i, chunk). \<lparr>embeddings_thread_id = tid, embeddings_order_index = idx,
                        embeddings_chunk_index = int i, embeddings_role = rl,
                        embeddings_content = chunk_content chunk,
                        embeddings_embedding = chunk_embedding chunk\<rparr>)
       (zip [k..<k + length cs] cs)"
proof (induction cs arbitrary: k w ms)
  case Nil
  then show ?case by simp
next
  case (Cons c cs)
  have u: "[k..<k + length (c # cs)] = k # [Suc k..<Suc k + length cs]"
    by (subst upt_rec) simp
  from Cons.prems
  have "promise_all
          (createMessage E tid idx (int k) rl (chunk_content c) (chunk_embedding c) #
           map (\<lambda>(i, chunk). createMessage E tid idx (int i) rl (chunk_content chunk) (chunk_embedding chunk))
             (zip [Suc k..<Suc k + length cs] cs)) w = (Inr ms, w')"
    unfolding u by simp
  from promise_all_Cons_Inr [OF this] obtain v w1 vs' where
    a: "createMessage E tid idx (int k) rl (chunk_content c) (chunk_embedding c) w = (Inr v, w1)"
    and b: "promise_all
              (map (\<lambda>(i, chunk). createMessage E tid idx (int i) rl (chunk_content chunk) (chunk_embedding chunk))
                 (zip [Suc k..<Suc k + length cs] cs)) w1 = (Inr vs', w')"
    by blast
  show ?case
    unfolding u using createMessage_Inr [OF a] Cons.IH [OF b] by simp
qed

lemma updateMessages_Inr:
  assumes "updateMessages E text tid rl idx w = (Inr u, w')"
  shows "\<exists>snippets. splitText E text = Inr snippets \<and>
           embeddings w' = embeddings w @ chunkRows E tid idx rl snippets"
proof -
  from assms obtain chunks w1 ms where
    g: "generateEmbeddingChunks E text w = (Inr chunks, w1)"
    and p: "promise_all
              (map (\<lambda>(i, chunk). createMessage E tid idx (int i) rl (chunk_content chunk) (chunk_embedding chunk))
                 (zip [0..<0 + length chunks] chunks)) w1 = (Inr ms, w')"
    by (auto simp: updateMessages_def rethrow_def split: prod.splits sum.splits)
  from generateEmbeddingChunks_Inr [OF g] obtain snippets where
    s: "splitText E text = Inr snippets"
    and c: "chunks = map (\<lambda>s. \<lparr>chunk_content = s, chunk_embedding = embeddingText E s\<rparr>) snippets"
    and e: "embeddings w1 = embeddings w"
    by blast
  have "map (\<lambda>(i, chunk). \<lparr>embeddings_thread_id = tid, embeddings_order_index = idx,
                        embeddings_chunk_index = int i, embeddings_role = rl,
                        embeddings_content = chunk_content chunk,
                        embeddings_embedding = chunk_embedding chunk\<rparr>)
          (zip [0..<0 + length chunks] chunks) = chunkRows E tid idx rl snippets"
    unfolding c chunkRows_def chunkRow_def
    by (simp add: zip_map2 case_prod_unfold)
  then show ?thesis using createMessages_Inr [OF p] s e by simp
qed

lemma getNextOrderIndex_embeddings:
  "embeddings (snd (getNextOrderIndex E tid w)) = embeddings w"
  by (simp add: getNextOrderIndex_def db_select_order_index_def Let_def split: option.splits)

lemma postProcess_Inr:
  assumes "postProcess E req thr resp w = (Inr u, w')"
  shows "\<exists>idx usnips asnips.
           fst (getNextOrderIndex E (Thread_id thr) w) = Inr idx \<and>
           splitText E (request_message req) = Inr usnips \<and>
           splitText E (response_message resp) = Inr asnips \<and>
           embeddings w' = embeddings w @ chunkRows E (Thread_id thr) idx User usnips @
                             chunkRows E (Thread_id thr) (idx + 1) Assistant asnips"
proof -
  from assms obtain idx w1 us where
    n: "getNextOrderIndex E (Thread_id thr) w = (Inr idx, w1)"
    and p: "promise_all
              [updateMessages E (request_message req) (Thread_id thr) User idx,
               updateMessages E (response_message resp) (Thread_id thr) Assistant (idx + 1)] w1
            = (Inr us, w')"
    by (auto simp: postProcess_def rethrow_def split: prod.splits sum.splits)
  from p obtain u1 w2 u2 where
    a: "updateMessages E (request_message req) (Thread_id thr) User idx w1 = (Inr u1, w2)"
    and b: "updateMessages E (response_message resp) (Thread_id thr) Assistant (idx + 1) w2 = (Inr u2, w')"
    by (auto split: prod.splits sum.splits)
  have e: "embeddings w1 = embeddings w"
    using getNextOrderIndex_embeddings [of E "Thread_id thr" w] n by simp
  from updateMessages_Inr [OF a] updateMessages_Inr [OF b] e n show ?thesis
    by auto
qed

lemma consumeStream_embeddings:
  "embeddings (snd (consumeStream ds acc w)) = embeddings w"
proof (induction ds arbitrary: acc w)
  case Nil
  then show ?case by simp
next
  case (Cons d ds)
  obtain fullContent calls where a: "acc = (fullContent, calls)" by (cases acc)
  show ?case
    unfolding a using Cons.IH
    by (simp split: option.splits list.splits)
qed

lemma executeDefaultAICall_embeddings:
  "embeddings (snd (executeDefaultAICall E cfg w)) = embeddings w"
  by (simp add: executeDefaultAICall_def Let_def case_prod_beta split: sum.splits list.splits)

lemma executeStreamingAICall_embeddings:
  "embeddings (snd (executeStreamingAICall E cfg w)) = embeddings w"
proof (cases "config_responseFormat cfg")
  case (Some schema)
  then show ?thesis
    by (simp add: executeStreamingAICall_def executeDefaultAICall_embeddings)
next
  case None
  show ?thesis
  proof (cases "chat_stream E (chatCalls (trace w))
                  (ensureSystemMessage (config_messages cfg) (config_systemMessage cfg))")
    case (Inl e)
    then show ?thesis using None by (simp add: executeStreamingAICall_def Let_def)
  next
    case (Inr deltas)
    then show ?thesis
      using None
        consumeStream_embeddings [of deltas "([], [])"
          "emit (ChatCreate True (ensureSystemMessage (config_messages cfg) (config_systemMessage cfg))
                   (toolNames (config_tools cfg))) w"]
      by (auto simp: executeStreamingAICall_def Let_def split: prod.splits)
  qed
qed

lemma executeAICall_embeddings:
  "embeddings (snd (executeAICall E cfg w)) = embeddings w"
  using executeDefaultAICall_embeddings [of E cfg w] executeStreamingAICall_embeddings [of E cfg w]
  by (auto simp: executeAICall_def split: prod.splits)

lemma updateThread_embeddings:
  "embeddings (snd (updateThread E tid ttl objs w)) = embeddings w"
  by (auto simp: updateThread_def db_update_thread_def Let_def split: option.splits prod.splits)

lemma runToolCall_embeddings:
  "embeddings (snd (runToolCall E tc ts w)) = embeddings w"
  by (simp add: runToolCall_def execute_def split: sum.splits)

lemma processToolCallWithEntities_embeddings:
  "embeddings (snd (processToolCallWithEntities E ts tc w)) = embeddings w"
  using runToolCall_embeddings [of E tc ts w]
  by (auto simp: processToolCallWithEntities_def handleToolCall_def split: prod.splits sum.splits)

lemma promise_all_embeddings:
  assumes "\<And>t w. t \<in> set ts \<Longrightarrow> embeddings (snd (t w)) = embeddings w"
  shows "embeddings (snd (promise_all ts w)) = embeddings w"
  using assms
proof (induction ts arbitrary: w)
  case Nil
  then show ?case by simp
next
  case (Cons t ts)
  obtain r w1 where t: "t w = (r, w1)" by (cases "t w")
  obtain rs w2 where p: "promise_all ts w1 = (rs, w2)" by (cases "promise_all ts w1")
  have "embeddings w1 = embeddings w" using Cons.prems [of t w] t by simp
  moreover have "embeddings w2 = embeddings w1" using Cons.IH [of w1] Cons.prems p by simp
  ultimately show ?case using t p by simp
qed

lemma toolLoop_embeddings:
  assumes "toolLoop E config ts aiResult ms changes w = Some y"
  shows "embeddings (snd y) = embeddings w"
proof (rule toolLoop.raw_induct
    [where P = "\<lambda>E config ts aiResult ms changes w y. embeddings (snd y) = embeddings w",
     OF _ assms])
  fix f E config ts aiResult ms changes w y
  assume ih: "\<And>config ts aiResult ms changes w b y.
                 f config ts aiResult ms changes w b = Some y \<Longrightarrow>
                 embeddings (snd y) = embeddings b"
    and body: "(case toolCalls aiResult of None \<Rightarrow> Some (Inr (aiResult, changes), w)
      | Some [] \<Rightarrow> Some (Inr (aiResult, changes), w)
      | Some (c # cs) \<Rightarrow>
          case promise_all (map (processToolCallWithEntities E ts) (c # cs)) w of
            (Inl e, w1) \<Rightarrow>
              Some (Inl (handleAppError e ''Error processing tool calls batch'' INTERNAL_ERROR), w1)
          | (Inr toolCallResults, w1) \<Rightarrow>
              case executeAICall E (config\<lparr>config_messages := ms @ map fst toolCallResults\<rparr>) w1 of
                (Inl e, w2) \<Rightarrow>
                  Some (Inl (handleAppError e ''Error processing tool calls batch'' INTERNAL_ERROR), w2)
              | (Inr aiResult1, w2) \<Rightarrow>
                  f E config ts aiResult1
                    (ms @ map fst toolCallResults @ [assistantMessage aiResult1])
                    (addChanges changes (map snd toolCallResults)) w2) = Some y"
  show "embeddings (snd y) = embeddings w"
  proof (cases "toolCalls aiResult")
    case None
    then show ?thesis using body by auto
  next
    case (Some calls)
    show ?thesis
    proof (cases calls)
      case Nil
      then show ?thesis using body Some by auto
    next
      case (Cons c cs)
      obtain rs w1 where p: "promise_all (map (processToolCallWithEntities E ts) (c # cs)) w = (rs, w1)"
        by (cases "promise_all (map (processToolCallWithEntities E ts) (c # cs)) w")
      have e1: "embeddings w1 = embeddings w"
        using promise_all_embeddings
          [of "map (processToolCallWithEntities E ts) (c # cs)" w] p
          processToolCallWithEntities_embeddings
        by auto
      show ?thesis
      proof (cases rs)
        case (Inl e)
        then show ?thesis using body Some Cons p e1 by auto
      next
        case (Inr toolCallResults)
        obtain r2 w2 where x: "executeAICall E
            (config\<lparr>config_messages := ms @ map fst toolCallResults\<rparr>) w1 = (r2, w2)"
          by (cases "executeAICall E
            (config\<lparr>config_messages := ms @ map fst toolCallResults\<rparr>) w1")
        have e2: "embeddings w2 = embeddings w1"
          using executeAICall_embeddings
            [of E "config\<lparr>config_messages := ms @ map fst toolCallResults\<rparr>" w1] x
          by simp
        show ?thesis
        proof (cases r2)
          case (Inl e)
          then show ?thesis using body Some Cons p Inr x e1 e2 by auto
        next
          case r: (Inr aiResult1)
          from body Some Cons p Inr x r
          have "f E config ts aiResult1
                  (ms @ map fst toolCallResults @ [assistantMessage aiResult1])
                  (addChanges changes (map snd toolCallResults)) w2 = Some y"
            by simp
          from ih [OF this] e1 e2 show ?thesis by simp
        qed
      qed
    qed
  qed
qed

lemma updateObjectivesBestEffort_embeddings:
  "embeddings (updateObjectivesBestEffort E thr r w) = embeddings w"
  using updateThread_embeddings [of E "Thread_id thr" None "Some (userObjectives r)" w]
  by (auto simp: updateObjectivesBestEffort_def split: prod.splits sum.splits)

lemma processToolCalls_embeddings:
  assumes "processToolCalls E config ts thr w = Some (r, w')"
  shows "embeddings w' = embeddings w"
proof -
  obtain r1 w1 where x: "executeAICall E config w = (r1, w1)" by (cases "executeAICall E config w")
  then have e1: "embeddings w1 = embeddings w"
    using executeAICall_embeddings [of E config w] by simp
  show ?thesis
  proof (cases r1)
    case (Inl e)
    then show ?thesis using assms x e1 by (simp add: processToolCalls_def)
  next
    case (Inr aiResult)
    let ?loop = "toolLoop E config ts aiResult (config_messages config @ [assistantMessage aiResult])
                   \<lparr>changes_created = [], changes_updated = [], changes_deleted = []\<rparr> w1"
    from assms x Inr obtain y where y: "?loop = Some y"
      by (cases ?loop) (simp_all add: processToolCalls_def)
    obtain r2 w2 where p: "y = (r2, w2)" by (cases y)
    have e2: "embeddings w2 = embeddings w1"
      using toolLoop_embeddings [OF y] p by simp
    show ?thesis
    proof (cases r2)
      case (Inl e)
      then show ?thesis using assms x Inr y p e1 e2 by (simp add: processToolCalls_def)
    next
      case r: (Inr fc)
      obtain final changes where fc: "fc = (final, changes)" by (cases fc)
      have "w' = updateObjectivesBestEffort E thr final w2"
        using assms x Inr y p r fc by (simp add: processToolCalls_def)
      then show ?thesis
        using updateObjectivesBestEffort_embeddings [of E thr final w2] e1 e2 by simp
    qed
  qed
qed

lemma processPlain_Inr:
  assumes "processPlain E config thr w = (Inr resp, w')"
  shows "\<exists>idx emb wq.
           embeddings wq = embeddings w \<and>
           fst (getNextOrderIndex E (Thread_id thr) wq) = Inr idx \<and>
           embedQuery E (response_message resp) = Inr emb \<and>
           embeddings w' = embeddings w @
             [\<lparr>embeddings_thread_id = Thread_id thr, embeddings_order_index = idx,
               embeddings_chunk_index = 0, embeddings_role = Assistant,
               embeddings_content = response_message resp, embeddings_embedding = emb\<rparr>]"
proof -
  obtain r1 w1 where e: "executeAICall E config w = (r1, w1)" by (cases "executeAICall E config w")
  with assms obtain ai where r1: "r1 = Inr ai"
    by (cases r1) (auto simp: processPlain_def)
  obtain r2 w2 where g: "generateEmbeddings E (message ai) w1 = (r2, w2)"
    by (cases "generateEmbeddings E (message ai) w1")
  obtain tu w3 where u:
    "(if userObjectives ai \<noteq> []
      then (case updateThread E (Thread_id thr) None (Some (userObjectives ai)) w2 of
              (Inl e, w') \<Rightarrow> (Some e, w')
            | (Inr t, w') \<Rightarrow> (None, w'))
      else (None, w2)) = (tu, w3)"
    by (cases "(if userObjectives ai \<noteq> []
      then (case updateThread E (Thread_id thr) None (Some (userObjectives ai)) w2 of
              (Inl e, w') \<Rightarrow> (Some e, w')
            | (Inr t, w') \<Rightarrow> (None, w'))
      else (None, w2))")
  obtain r4 w4 where n: "getNextOrderIndex E (Thread_id thr) w3 = (r4, w4)"
    by (cases "getNextOrderIndex E (Thread_id thr) w3")
  have body: "processPlain E config thr w =
     (case r2 of
        Inl e \<Rightarrow> (Inl e, w4)
      | Inr emb \<Rightarrow>
          (case r4 of
             Inl e \<Rightarrow> (Inl e, w4)
           | Inr idx \<Rightarrow>
               (case createMessage E (Thread_id thr) idx 0 Assistant (message ai) emb w4 of
                  (Inl e, w5) \<Rightarrow> (Inl e, w5)
                | (Inr m, w5) \<Rightarrow>
                    (case tu of
                       Some e \<Rightarrow> (Inl e, w5)
                     | None \<Rightarrow>
                         (Inr \<lparr>response_message = message ai,
                               response_threadId = Thread_id thr,
                               response_created = (case created ai of None \<Rightarrow> [] | Some xs \<Rightarrow> xs),
                               response_updated = (case updated ai of None \<Rightarrow> [] | Some xs \<Rightarrow> xs),
                               response_deleted = (case deleted ai of None \<Rightarrow> [] | Some xs \<Rightarrow> xs)\<rparr>,
                          w5)))))"
    unfolding processPlain_def e r1 using g u n by simp
  from assms body obtain emb idx m where
    r2: "r2 = Inr emb" and r4: "r4 = Inr idx"
    and c: "createMessage E (Thread_id thr) idx 0 Assistant (message ai) emb w4 = (Inr m, w')"
    and m: "response_message resp = message ai"
    by (auto split: sum.splits prod.splits option.splits)
  have e1: "embeddings w1 = embeddings w"
    using executeAICall_embeddings [of E config w] e by simp
  have e2: "embeddings w2 = embeddings w1" "embedQuery E (message ai) = Inr emb"
    using generateEmbeddings_Inr [of E "message ai" w1 emb w2] g r2 by simp_all
  have e3: "embeddings w3 = embeddings w2"
    using u updateThread_embeddings [of E "Thread_id thr" None "Some (userObjectives ai)" w2]
    by (auto split: if_splits prod.splits sum.splits)
  have e4: "embeddings w4 = embeddings w3"
    using getNextOrderIndex_embeddings [of E "Thread_id thr" w3] n by simp
  have "fst (getNextOrderIndex E (Thread_id thr) w3) = Inr idx" using n r4 by simp
  then show ?thesis
    using createMessage_Inr [OF c] e1 e2 e3 e4 m by auto
qed

lemma readThread_embeddings:
  "embeddings (snd (readThread E tid w)) = embeddings w"
  by (simp add: readThread_def db_select_thread_def Let_def case_prod_beta split: option.splits)

lemma createThread_embeddings:
  "embeddings (snd (createThread E uid ttl w)) = embeddings w"
  by (simp add: createThread_def db_insert_thread_def Let_def case_prod_beta split: option.splits)

lemma getThread_embeddings:
  "embeddings (snd (getThread E cfg req w)) = embeddings w"
proof -
  have c: "\<And>w. embeddings (snd (createThread E (request_userId req) (title cfg) w)) = embeddings w"
    by (rule createThread_embeddings)
  show ?thesis
  proof (cases "request_threadId req")
    case None
    then show ?thesis using c [of w] by (simp add: getThread_def case_prod_beta)
  next
    case (Some tid)
    show ?thesis
    proof (cases tid)
      case Nil
      then show ?thesis using Some c [of w] by (simp add: getThread_def case_prod_beta)
    next
      case (Cons a as)
      obtain r w1 where r: "readThread E (a # as) w = (r, w1)" by (cases "readThread E (a # as) w")
      then have e: "embeddings w1 = embeddings w"
        using readThread_embeddings [of E "a # as" w] by simp
      show ?thesis
        using Some Cons r e c [of w1]
        by (cases r) (auto simp: getThread_def case_prod_beta split: option.splits)
    qed
  qed
qed

lemma findSimilarMessages_embeddings:
  "embeddings (snd (findSimilarMessages E tid q sim cnt w)) = embeddings w"
  by (simp add: findSimilarMessages_def generateEmbeddings_def db_rpc_match_embeddings_def Let_def
      case_prod_beta split: option.splits sum.splits)

lemma prepareProcess_embeddings:
  "embeddings (snd (prepareProcess E cfg req thr w)) = embeddings w"
proof (cases "systemContent E cfg thr")
  case (Inl e)
  then show ?thesis by (simp add: prepareProcess_def)
next
  case (Inr systemText)
  show ?thesis
  proof (cases "request_message req = []")
    case True
    then show ?thesis using Inr by (simp add: prepareProcess_def)
  next
    case False
    obtain r w1 where f: "findSimilarMessages E (Thread_id thr) (request_message req)
                           (similarity cfg) (matchCount cfg) w = (r, w1)"
      by (cases "findSimilarMessages E (Thread_id thr) (request_message req)
                           (similarity cfg) (matchCount cfg) w")
    then have "embeddings w1 = embeddings w"
      using findSimilarMessages_embeddings
        [of E "Thread_id thr" "request_message req" "similarity cfg" "matchCount cfg" w] by simp
    then show ?thesis using False f Inr by (cases r) (simp_all add: prepareProcess_def)
  qed
qed

lemma chunkRows_chunk_indices:
  "map embeddings_chunk_index (chunkRows E tid idx rl snippets) = map int [0..<length snippets]"
proof -
  have a: "map fst (zip [0..<length snippets] snippets) = [0..<length snippets]"
    by (rule map_fst_zip) simp
  have "map embeddings_chunk_index (chunkRows E tid idx rl snippets) =
          map (int \<circ> fst) (zip [0..<length snippets] snippets)"
    by (simp add: chunkRows_def chunkRow_def comp_def)
  also have "\<dots> = map int (map fst (zip [0..<length snippets] snippets))"
    by (simp only: map_map)
  finally show ?thesis by (simp only: a)
qed

lemma chunkRows_indices:
  "(\<forall>r \<in> set (chunkRows E tid idx rl snippets). embeddings_order_index r = idx) \<and>
   distinct (map embeddings_chunk_index (chunkRows E tid idx rl snippets))"
proof -
  have "distinct (map int [0..<length snippets])"
    by (simp add: distinct_map inj_on_def)
  then have "distinct (map embeddings_chunk_index (chunkRows E tid idx rl snippets))"
    by (simp only: chunkRows_chunk_indices)
  moreover have "\<forall>r \<in> set (chunkRows E tid idx rl snippets). embeddings_order_index r = idx"
    by (auto simp: chunkRows_def chunkRow_def)
  ultimately show ?thesis by blast
qed

text \<open>
  C2, as the code has it. In a turn that completes successfully the post-process step
  stores the user message and the reply as chunked fragments: the chunks of the user
  message at the order index that \<open>getNextOrderIndex\<close> returns after the process step,
  those of the reply at the next one, the chunks of one message sharing its order index and
  numbered from 0. When no tools are configured the process step has stored, before that,
  the reply as one fragment with chunk index 0, embedded from the whole reply text, at the
  order index that \<open>getNextOrderIndex\<close> returns on the fragments the turn found. When
  tools are configured the process step is the tool-call loop, and it has stored no
  fragment: the fragments are then those the turn found.
\<close>

theorem thread_persists_reply_and_chunks:
  assumes "thread E cfg req w = Some (Inr resp, w')"
  shows "\<exists>thr config w2 w3 idx' usnips asnips.
           processRequest E cfg config thr w2 = Some (Inr resp, w3) \<and>
           embeddings w2 = embeddings w \<and>
           Thread_id thr = response_threadId resp \<and>
           (tools cfg = None \<or> tools cfg = Some [] \<longrightarrow>
              (\<exists>idx emb wq.
                 embeddings wq = embeddings w \<and>
                 fst (getNextOrderIndex E (Thread_id thr) wq) = Inr idx \<and>
                 embedQuery E (response_message resp) = Inr emb \<and>
                 embeddings w3 = embeddings w @
                   [\<lparr>embeddings_thread_id = Thread_id thr, embeddings_order_index = idx,
                     embeddings_chunk_index = 0, embeddings_role = Assistant,
                     embeddings_content = response_message resp, embeddings_embedding = emb\<rparr>])) \<and>
           (tools cfg \<noteq> None \<and> tools cfg \<noteq> Some [] \<longrightarrow> embeddings w3 = embeddings w) \<and>
           fst (getNextOrderIndex E (Thread_id thr) w3) = Inr idx' \<and>
           splitText E (request_message req) = Inr usnips \<and>
           splitText E (response_message resp) = Inr asnips \<and>
           embeddings w' = embeddings w3 @ chunkRows E (Thread_id thr) idx' User usnips @
                             chunkRows E (Thread_id thr) (idx' + 1) Assistant asnips \<and>
           (\<forall>r \<in> set (chunkRows E (Thread_id thr) idx' User usnips). embeddings_order_index r = idx') \<and>
           (\<forall>r \<in> set (chunkRows E (Thread_id thr) (idx' + 1) Assistant asnips).
              embeddings_order_index r = idx' + 1) \<and>
           distinct (map embeddings_chunk_index (chunkRows E (Thread_id thr) idx' User usnips)) \<and>
           distinct (map embeddings_chunk_index (chunkRows E (Thread_id thr) (idx' + 1) Assistant asnips))"
proof -
  from thread_Inr [OF assms] obtain thr w1 config w2 w3 where
    g: "getThread E cfg req w = (Inr thr, w1)"
    and p: "prepareProcess E cfg req thr w1 = (Inr config, w2)"
    and r: "processRequest E cfg config thr w2 = Some (Inr resp, w3)"
    and q: "postProcess E req thr resp w3 = (Inr (), w')"
    by blast
  have e1: "embeddings w1 = embeddings w"
    using getThread_embeddings [of E cfg req w] g by simp
  have e2: "embeddings w2 = embeddings w"
    using prepareProcess_embeddings [of E cfg req thr w1] p e1 by simp
  have plain: "tools cfg = None \<or> tools cfg = Some [] \<longrightarrow>
              (\<exists>idx emb wq.
                 embeddings wq = embeddings w \<and>
                 fst (getNextOrderIndex E (Thread_id thr) wq) = Inr idx \<and>
                 embedQuery E (response_message resp) = Inr emb \<and>
                 embeddings w3 = embeddings w @
                   [\<lparr>embeddings_thread_id = Thread_id thr, embeddings_order_index = idx,
                     embeddings_chunk_index = 0, embeddings_role = Assistant,
                     embeddings_content = response_message resp, embeddings_embedding = emb\<rparr>])"
  proof
    assume "tools cfg = None \<or> tools cfg = Some []"
    then have "processPlain E config thr w2 = (Inr resp, w3)"
      using r by (auto simp: processRequest_def rethrow_def split: sum.splits prod.splits)
    from processPlain_Inr [OF this] show "\<exists>idx emb wq.
                 embeddings wq = embeddings w \<and>
                 fst (getNextOrderIndex E (Thread_id thr) wq) = Inr idx \<and>
                 embedQuery E (response_message resp) = Inr emb \<and>
                 embeddings w3 = embeddings w @
                   [\<lparr>embeddings_thread_id = Thread_id thr, embeddings_order_index = idx,
                     embeddings_chunk_index = 0, embeddings_role = Assistant,
                     embeddings_content = response_message resp, embeddings_embedding = emb\<rparr>]"
      unfolding e2 .
  qed
  have looped: "tools cfg \<noteq> None \<and> tools cfg \<noteq> Some [] \<longrightarrow> embeddings w3 = embeddings w"
  proof
    assume "tools cfg \<noteq> None \<and> tools cfg \<noteq> Some []"
    then obtain t ts where t: "tools cfg = Some (t # ts)"
      by (cases "tools cfg") (auto simp: neq_Nil_conv)
    with r obtain r' where "processToolCalls E config (t # ts) thr w2 = Some (r', w3)"
      by (auto simp: processRequest_def split: option.splits)
    from processToolCalls_embeddings [OF this] show "embeddings w3 = embeddings w"
      unfolding e2 .
  qed
  from postProcess_Inr [OF q] obtain idx' usnips asnips where
    post: "fst (getNextOrderIndex E (Thread_id thr) w3) = Inr idx'"
      "splitText E (request_message req) = Inr usnips"
      "splitText E (response_message resp) = Inr asnips"
      "embeddings w' = embeddings w3 @ chunkRows E (Thread_id thr) idx' User usnips @
                             chunkRows E (Thread_id thr) (idx' + 1) Assistant asnips"
    by blast
  have tid: "Thread_id thr = response_threadId resp"
    using processRequest_threadId [OF r] by simp
  note c1 = chunkRows_indices [of E "Thread_id thr" idx' User usnips]
  note c2 = chunkRows_indices [of E "Thread_id thr" "idx' + 1" Assistant asnips]
  show ?thesis
    by (rule exI [of _ thr], rule exI [of _ config], rule exI [of _ w2], rule exI [of _ w3],
        rule exI [of _ idx'], rule exI [of _ usnips], rule exI [of _ asnips])
      (intro conjI; (rule r e2 tid plain looped post | use c1 c2 in blast))
qed

theorem thread_persists_reply_and_chunks_witness:
  "(\<exists>w'. thread chunkEnv helperConfig (request ''Tell me a story'' ''u1'' (Some ''t1'')) storedWorld =
           Some (Inr \<lparr>response_message = ''Hello there'', response_threadId = ''t1'',
                      response_created = [], response_updated = [], response_deleted = []\<rparr>, w') \<and>
         (\<exists>w3 :: world. \<exists>idx'.
            embeddings w' = embeddings w3 @
              chunkRows chunkEnv ''t1'' idx' User [''Tell me a '', ''story''] @
              chunkRows chunkEnv ''t1'' (idx' + 1) Assistant [''Hello ther'', ''e'']) \<and>
         embeddings w' = embeddings storedWorld @
           [fragment ''t1'' 3 0 Assistant ''Hello there'',
            fragment ''t1'' 4 0 User ''Tell me a '', fragment ''t1'' 4 1 User ''story'',
            fragment ''t1'' 5 0 Assistant ''Hello ther'', fragment ''t1'' 5 1 Assistant ''e'']) \<and>
   (\<exists>w'. thread (weatherEnv ''{}'') (helperConfig\<lparr>tools := Some [weatherTool]\<rparr>)
           (request ''What is the weather in Berlin?'' ''u1'' (Some ''t1'')) storedWorld =
           Some (Inr \<lparr>response_message = ''It is sunny, 22 degrees.'', response_threadId = ''t1'',
                      response_created = [], response_updated = [], response_deleted = []\<rparr>, w') \<and>
         (\<exists>idx'.
            embeddings w' = embeddings storedWorld @
              chunkRows (weatherEnv ''{}'') ''t1'' idx' User [''What is the weather in Berlin?''] @
              chunkRows (weatherEnv ''{}'') ''t1'' (idx' + 1) Assistant [''It is sunny, 22 degrees.'']) \<and>
         embeddings w' = embeddings storedWorld @
           [fragment ''t1'' 3 0 User ''What is the weather in Berlin?'',
            fragment ''t1'' 4 0 Assistant ''It is sunny, 22 degrees.''])"
proof (rule conjI)
  let ?req = "request ''Tell me a story'' ''u1'' (Some ''t1'')"
  let ?resp = "\<lparr>response_message = ''Hello there'', response_threadId = ''t1'',
                response_created = [], response_updated = [], response_deleted = []\<rparr>"
  let ?rows = "[fragment ''t1'' 3 0 Assistant ''Hello there'',
            fragment ''t1'' 4 0 User ''Tell me a '', fragment ''t1'' 4 1 User ''story'',
            fragment ''t1'' 5 0 Assistant ''Hello ther'', fragment ''t1'' 5 1 Assistant ''e'']"
  have "map_option (\<lambda>(r, w). (r, embeddings w)) (thread chunkEnv helperConfig ?req storedWorld) =
          Some (Inr ?resp, embeddings storedWorld @ ?rows)"
    by code_simp
  then obtain w' where run: "thread chunkEnv helperConfig ?req storedWorld = Some (Inr ?resp, w')"
    and rows: "embeddings w' = embeddings storedWorld @ ?rows"
    by (cases "thread chunkEnv helperConfig ?req storedWorld") auto
  have s: "splitText chunkEnv (request_message ?req) = Inr [''Tell me a '', ''story'']"
    "splitText chunkEnv (response_message ?resp) = Inr [''Hello ther'', ''e'']"
    by (simp_all add: chunkEnv_def request_def)
  from thread_persists_reply_and_chunks [OF run]
  obtain thr :: Thread and w3 :: world and idx' usnips asnips where
    t: "Thread_id thr = response_threadId ?resp"
    and u: "splitText chunkEnv (request_message ?req) = Inr usnips"
    and a: "splitText chunkEnv (response_message ?resp) = Inr asnips"
    and e: "embeddings w' = embeddings w3 @ chunkRows chunkEnv (Thread_id thr) idx' User usnips @
              chunkRows chunkEnv (Thread_id thr) (idx' + 1) Assistant asnips"
    by blast
  have v: "Thread_id thr = ''t1''" "usnips = [''Tell me a '', ''story'']" "asnips = [''Hello ther'', ''e'']"
    using t u a s by simp_all
  have mid: "\<exists>w3 :: world. \<exists>idx'.
            embeddings w' = embeddings w3 @
              chunkRows chunkEnv ''t1'' idx' User [''Tell me a '', ''story''] @
              chunkRows chunkEnv ''t1'' (idx' + 1) Assistant [''Hello ther'', ''e'']"
    by (rule exI [of _ w3], rule exI [of _ idx']) (use e in \<open>simp only: v\<close>)
  show "\<exists>w'. thread chunkEnv helperConfig ?req storedWorld = Some (Inr ?resp, w') \<and>
         (\<exists>w3 :: world. \<exists>idx'.
            embeddings w' = embeddings w3 @
              chunkRows chunkEnv ''t1'' idx' User [''Tell me a '', ''story''] @
              chunkRows chunkEnv ''t1'' (idx' + 1) Assistant [''Hello ther'', ''e'']) \<and>
         embeddings w' = embeddings storedWorld @ ?rows"
  proof (rule exI [of _ w'], intro conjI)
    show "thread chunkEnv helperConfig ?req storedWorld = Some (Inr ?resp, w')"
      by (rule run)
    show "\<exists>w3 :: world. \<exists>idx'.
            embeddings w' = embeddings w3 @
              chunkRows chunkEnv ''t1'' idx' User [''Tell me a '', ''story''] @
              chunkRows chunkEnv ''t1'' (idx' + 1) Assistant [''Hello ther'', ''e'']"
      by (rule mid)
    show "embeddings w' = embeddings storedWorld @ ?rows"
      by (rule rows)
  qed
next
  let ?E = "weatherEnv ''{}''"
  let ?cfg = "helperConfig\<lparr>tools := Some [weatherTool]\<rparr>"
  let ?req = "request ''What is the weather in Berlin?'' ''u1'' (Some ''t1'')"
  let ?resp = "\<lparr>response_message = ''It is sunny, 22 degrees.'', response_threadId = ''t1'',
                response_created = [], response_updated = [], response_deleted = []\<rparr>"
  let ?rows = "[fragment ''t1'' 3 0 User ''What is the weather in Berlin?'',
            fragment ''t1'' 4 0 Assistant ''It is sunny, 22 degrees.'']"
  have "map_option (\<lambda>(r, w). (r, embeddings w)) (thread ?E ?cfg ?req storedWorld) =
          Some (Inr ?resp, embeddings storedWorld @ ?rows)"
    by code_simp
  then obtain w' where run: "thread ?E ?cfg ?req storedWorld = Some (Inr ?resp, w')"
    and rows: "embeddings w' = embeddings storedWorld @ ?rows"
    by (cases "thread ?E ?cfg ?req storedWorld") auto
  have s: "splitText ?E (request_message ?req) = Inr [''What is the weather in Berlin?'']"
    "splitText ?E (response_message ?resp) = Inr [''It is sunny, 22 degrees.'']"
    by (simp_all add: weatherEnv_def jsonEnv_def quietEnv_def request_def)
  have c: "tools ?cfg \<noteq> None \<and> tools ?cfg \<noteq> Some []" by simp
  from thread_persists_reply_and_chunks [OF run] c
  obtain thr :: Thread and w3 :: world and idx' usnips asnips where
    t: "Thread_id thr = response_threadId ?resp"
    and l: "embeddings w3 = embeddings storedWorld"
    and u: "splitText ?E (request_message ?req) = Inr usnips"
    and a: "splitText ?E (response_message ?resp) = Inr asnips"
    and e: "embeddings w' = embeddings w3 @ chunkRows ?E (Thread_id thr) idx' User usnips @
              chunkRows ?E (Thread_id thr) (idx' + 1) Assistant asnips"
    by blast
  have v: "Thread_id thr = ''t1''" "usnips = [''What is the weather in Berlin?'']"
    "asnips = [''It is sunny, 22 degrees.'']"
    using t u a s by simp_all
  have mid: "\<exists>idx'.
            embeddings w' = embeddings storedWorld @
              chunkRows ?E ''t1'' idx' User [''What is the weather in Berlin?''] @
              chunkRows ?E ''t1'' (idx' + 1) Assistant [''It is sunny, 22 degrees.'']"
    by (rule exI [of _ idx']) (use e in \<open>simp only: v l\<close>)
  show "\<exists>w'. thread ?E ?cfg ?req storedWorld = Some (Inr ?resp, w') \<and>
         (\<exists>idx'.
            embeddings w' = embeddings storedWorld @
              chunkRows ?E ''t1'' idx' User [''What is the weather in Berlin?''] @
              chunkRows ?E ''t1'' (idx' + 1) Assistant [''It is sunny, 22 degrees.'']) \<and>
         embeddings w' = embeddings storedWorld @ ?rows"
  proof (rule exI [of _ w'], intro conjI)
    show "thread ?E ?cfg ?req storedWorld = Some (Inr ?resp, w')"
      by (rule run)
    show "\<exists>idx'.
            embeddings w' = embeddings storedWorld @
              chunkRows ?E ''t1'' idx' User [''What is the weather in Berlin?''] @
              chunkRows ?E ''t1'' (idx' + 1) Assistant [''It is sunny, 22 degrees.'']"
      by (rule mid)
    show "embeddings w' = embeddings storedWorld @ ?rows"
      by (rule rows)
  qed
qed

text \<open>
  The claim as the specification states it fails when tools are configured: the process
  step is then the tool-call loop, which stores no fragment. The turn below completes
  successfully and leaves two new fragments, the user message and the reply, not three.
\<close>

theorem thread_with_tools_single_persist_counterexample:
  "map_option fst
     (thread (weatherEnv ''{}'') (helperConfig\<lparr>tools := Some [weatherTool]\<rparr>)
        (request ''What is the weather in Berlin?'' ''u1'' (Some ''t1'')) storedWorld) =
     Some (Inr \<lparr>response_message = ''It is sunny, 22 degrees.'', response_threadId = ''t1'',
                response_created = [], response_updated = [], response_deleted = []\<rparr>) \<and>
   map_option (embeddings \<circ> snd)
     (thread (weatherEnv ''{}'') (helperConfig\<lparr>tools := Some [weatherTool]\<rparr>)
        (request ''What is the weather in Berlin?'' ''u1'' (Some ''t1'')) storedWorld) =
     Some (embeddings storedWorld @
             [fragment ''t1'' 3 0 User ''What is the weather in Berlin?'',
              fragment ''t1'' 4 0 Assistant ''It is sunny, 22 degrees.''])"
  by code_simp

subsection \<open>Directives in the reply text\<close>















end
